theory Spec2Isabelle
  imports Main
begin

section \<open>JavaScript strings\<close>

text \<open>
  Strings are \<^typ>\<open>string\<close>; a character stands for one code unit below 256.
  \<open>isWhiteSpace\<close> is the set of code units that \<^verbatim>\<open>String.prototype.trim\<close>
  strips (WhiteSpace and LineTerminator of ECMAScript) in that range:
  TAB, LF, VT, FF, CR, SP and NBSP.
\<close>

definition isWhiteSpace :: "char \<Rightarrow> bool" where
  "isWhiteSpace c = ((of_char c :: nat) \<in> {9, 10, 11, 12, 13, 32, 160})"

definition trim :: "string \<Rightarrow> string" where
  "trim s = rev (dropWhile isWhiteSpace (rev (dropWhile isWhiteSpace s)))"

text \<open>\<^verbatim>\<open>s.includes(sub)\<close>: \<open>sub\<close> occurs in \<open>s\<close> as a contiguous run.\<close>

fun str_includes :: "string \<Rightarrow> string \<Rightarrow> bool" where
  "str_includes [] sub = (sub = [])"
| "str_includes (c # cs) sub = (take (length sub) (c # cs) = sub \<or> str_includes cs sub)"

text \<open>\<^verbatim>\<open>toUpperCase\<close> on the ASCII letters (the language names are ASCII).\<close>

definition upperChar :: "char \<Rightarrow> char" where
  "upperChar c = (let n = (of_char c :: nat) in if 97 \<le> n \<and> n \<le> 122 then char_of (n - 32) else c)"

definition toUpperCase :: "string \<Rightarrow> string" where
  "toUpperCase s = map upperChar s"

text \<open>Template-literal rendering of a non-negative integer: its decimal digits.\<close>

definition digit_char :: "nat \<Rightarrow> char" where
  "digit_char d = ''0123456789'' ! d"

function show_nat :: "nat \<Rightarrow> string" where
  "show_nat n = (if n < 10 then [digit_char n] else show_nat (n div 10) @ [digit_char (n mod 10)])"
  by pat_completeness auto
termination
  by (relation "measure id") auto

declare show_nat.simps [simp del]

text \<open>\<^verbatim>\<open>s.replace(/\/$/, '')\<close>: one trailing slash is removed.\<close>

definition stripTrailingSlash :: "string \<Rightarrow> string" where
  "stripTrailingSlash s = (if s \<noteq> [] \<and> last s = CHR ''/'' then butlast s else s)"

text \<open>\<^verbatim>\<open>x || d\<close> for an optional string: \<open>undefined\<close> and \<open>''\<close> are both falsy.\<close>

definition or_else :: "string option \<Rightarrow> string \<Rightarrow> string" where
  "or_else x d = (case x of None \<Rightarrow> d | Some s \<Rightarrow> if s = [] then d else s)"

section \<open>Data model (types.ts, as the source uses it)\<close>

text \<open>
  \<open>Language\<close>: the fields of the language descriptor that the source reads
  (\<^verbatim>\<open>name\<close>, \<^verbatim>\<open>compiler\<close>, \<^verbatim>\<open>args\<close>, \<^verbatim>\<open>skipCompile\<close>).
  \<open>Run\<close>: the execution result; \<^verbatim>\<open>null\<close> is \<open>None\<close>.
\<close>

record Language =
  name :: string
  compiler :: string
  args :: "string list"
  skipCompile :: bool

record Run =
  stdout :: string
  stderr :: string
  code :: "int option"
  signal :: "string option"
  time :: int
  timeOut :: bool

section \<open>The environment of a call\<close>

text \<open>
  A thrown JavaScript value: an \<^verbatim>\<open>Error\<close> object with its message, a string, or
  any other value. The \<^verbatim>\<open>catch\<close> block of \<^verbatim>\<open>compileAndRunViaApi\<close> tells the
  three apart.
\<close>

datatype thrown = ErrorObj string | StringVal string | OtherVal

datatype fs_op = OpWrite string | OpRead string | OpUnlink string

text \<open>
  The body of a 2xx response after \<^verbatim>\<open>response.json()\<close>:
  \<open>body_success\<close> is the truthiness of the field \<^verbatim>\<open>success\<close>;
  \<open>body_output\<close> and \<open>body_error\<close> are the optional string fields
  \<^verbatim>\<open>output\<close> and \<^verbatim>\<open>error\<close> of the endpoint's interface.
\<close>

record api_body =
  body_success :: bool
  body_output :: "string option"
  body_error :: "string option"

text \<open>
  A response: its status, the outcome of \<^verbatim>\<open>response.text()\<close> (\<open>None\<close> when it
  rejects) and the outcome of \<^verbatim>\<open>response.json()\<close> followed by the read of
  \<^verbatim>\<open>result.success\<close> (\<open>Inl\<close> when that throws). \<^verbatim>\<open>response.ok\<close> is
  the status lying in 200..299.
\<close>

record response =
  status :: nat
  text_result :: "string option"
  json_result :: "thrown + api_body"

definition response_ok :: "response \<Rightarrow> bool" where
  "response_ok r = (200 \<le> status r \<and> status r \<le> 299)"

datatype fetch_outcome = Rejects thrown | Responds response

record file_part =
  part_name :: string
  part_bytes :: string

record request =
  endpoint :: string
  lang_part :: string
  code_part :: file_part
  input_part :: "file_part option"

record editor =
  fileName :: string
  isUntitled :: bool

text \<open>Node's \<^verbatim>\<open>path\<close> module, as far as the source calls it.\<close>

record path_module =
  extname :: "string \<Rightarrow> string"
  dirname :: "string \<Rightarrow> string"
  basename :: "string \<Rightarrow> string"
  basename_ext :: "string \<Rightarrow> string \<Rightarrow> string"
  join :: "string \<Rightarrow> string \<Rightarrow> string"
  parse_name :: "string \<Rightarrow> string"

text \<open>
  Everything a call reads from outside the three source files:
  the preference \<^verbatim>\<open>getCloudCompilerApiUrlPref()\<close> (\<open>None\<close> is \<^verbatim>\<open>undefined\<close>),
  \<^verbatim>\<open>os.platform()\<close>, \<^verbatim>\<open>onlineJudgeEnv\<close>, the active editor, \<^verbatim>\<open>os.tmpdir()\<close>,
  the two ingredients of the temporary file name (\<^verbatim>\<open>Date.now()\<close> and the
  base-36 digits of \<^verbatim>\<open>Math.random()\<close>), the clock readings at the beginning and
  at the end, which file-system operations fail and with what, what \<^verbatim>\<open>fetch\<close>
  answers to a request, the \<^verbatim>\<open>path\<close> module, and the constant
  \<^verbatim>\<open>config.timeout\<close> of \<^verbatim>\<open>./config\<close> (milliseconds), which is not among the sources.
\<close>

record env =
  apiUrlPref :: "string option"
  platform :: string
  onlineJudgeEnv :: bool
  activeTextEditor :: "editor option"
  tmpdir :: string
  stamp :: nat
  rand36 :: string
  t_begin :: int
  t_end :: int
  fs_fault :: "fs_op \<Rightarrow> thrown option"
  fetch :: "request \<Rightarrow> fetch_outcome"
  pathm :: path_module
  configTimeout :: nat

text \<open>
  What a process is launched with; \<open>with_opts\<close> records whether \<^verbatim>\<open>spawnOpts\<close> is
  passed. \<^verbatim>\<open>spawnOpts\<close> carries \<^verbatim>\<open>timeout: config.timeout\<close>: for a positive
  value Node starts a timer of its own at the spawn and calls \<^verbatim>\<open>kill\<close> on the
  child, with the default signal, when it elapses; the \<^verbatim>\<open>exit\<close> of the child
  clears that timer.
\<close>

record spawn_spec =
  command :: string
  spawn_args :: "string list"
  with_opts :: bool

text \<open>
  The observable effects, in the order they happen: notifications of the editor
  (\<^verbatim>\<open>showWarningMessage\<close>, \<^verbatim>\<open>showErrorMessage\<close>), messages to the judge view,
  successful file writes and removals, requests sent, processes spawned, what is written
  to their standard input, and the calls of \<^verbatim>\<open>kill\<close> on a process: those of the
  source (\<^verbatim>\<open>process.kill()\<close>, no argument: the default signal is requested) and the
  one Node makes when the \<^verbatim>\<open>timeout\<close> of \<^verbatim>\<open>spawnOpts\<close> elapses (the default
  signal as well). Logger and telemetry calls are left out.
\<close>

datatype event =
    ShowWarning string
  | ShowError string
  | JudgeView string
  | FsWrite string string
  | FsUnlink string
  | Fetch request
  | Spawn nat spawn_spec
  | StdinWrite nat string
  | StdinEnd nat
  | KillRequest nat

text \<open>
  The state of one local call: its result object, whether the \<^verbatim>\<open>killer\<close> timer is
  still pending, whether the timer that Node started for the \<^verbatim>\<open>timeout\<close> of
  \<^verbatim>\<open>spawnOpts\<close> is still pending, the clock reading \<^verbatim>\<open>begin\<close>, whether the promise
  has been resolved, and the compiler name the error message quotes.
\<close>

record call_state =
  result :: Run
  killer_armed :: bool
  spawn_timer_armed :: bool
  began :: int
  resolved :: bool
  launcher :: string

text \<open>
  The mutable world: the file system, the effects so far, the module-level array
  \<^verbatim>\<open>runningBinaries\<close> (processes are numbered in spawn order), and the local calls.
\<close>

record world =
  files :: "string \<rightharpoonup> string"
  log :: "event list"
  runningBinaries :: "nat list"
  procs :: "nat \<rightharpoonup> call_state"
  spawned :: nat

section \<open>File system\<close>

text \<open>
  The \<^verbatim>\<open>fs\<close> calls of the source. A call that the environment makes fail throws
  and leaves the files as they were; reading or removing a file that does not exist
  throws \<^verbatim>\<open>ENOENT\<close>.
\<close>

definition existsSync :: "world \<Rightarrow> string \<Rightarrow> bool" where
  "existsSync w p = (files w p \<noteq> None)"

definition writeFileSync :: "env \<Rightarrow> string \<Rightarrow> string \<Rightarrow> world \<Rightarrow> thrown + world" where
  "writeFileSync e p c w =
     (case fs_fault e (OpWrite p) of
        Some x \<Rightarrow> Inl x
      | None \<Rightarrow> Inr (w\<lparr>files := (files w)(p \<mapsto> c), log := log w @ [FsWrite p c]\<rparr>))"

definition readFileSync :: "env \<Rightarrow> string \<Rightarrow> world \<Rightarrow> thrown + string" where
  "readFileSync e p w =
     (case fs_fault e (OpRead p) of
        Some x \<Rightarrow> Inl x
      | None \<Rightarrow> (case files w p of
                   None \<Rightarrow> Inl (ErrorObj (''ENOENT: no such file or directory, open '' @ p))
                 | Some c \<Rightarrow> Inr c))"

definition unlinkSync :: "env \<Rightarrow> string \<Rightarrow> world \<Rightarrow> thrown + world" where
  "unlinkSync e p w =
     (case fs_fault e (OpUnlink p) of
        Some x \<Rightarrow> Inl x
      | None \<Rightarrow> (case files w p of
                   None \<Rightarrow> Inl (ErrorObj (''ENOENT: no such file or directory, unlink '' @ p))
                 | Some c \<Rightarrow> Inr (w\<lparr>files := (files w)(p := None), log := log w @ [FsUnlink p]\<rparr>)))"

section \<open>apiClient.ts\<close>

definition mapLanguageToApi :: "string \<Rightarrow> string option" where
  "mapLanguageToApi extLanguage =
     (if extLanguage = ''c'' then Some ''c''
      else if extLanguage = ''cpp'' \<or> extLanguage = ''cc'' \<or> extLanguage = ''cxx'' then Some ''cpp''
      else if extLanguage = ''python'' then Some ''python''
      else if extLanguage = ''java'' then Some ''java''
      else if extLanguage = ''js'' then Some ''javascript''
      else if extLanguage = ''rust'' then Some ''rust''
      else if extLanguage = ''go'' then Some ''go''
      else if extLanguage = ''csharp'' then Some ''csharp''
      else if extLanguage = ''ruby'' \<or> extLanguage = ''hs'' \<or> extLanguage = ''cangjie'' then None
      else None)"

text \<open>The negation of \<^verbatim>\<open>!apiUrl || apiUrl.trim() === ''\<close>.\<close>

definition configured :: "string option \<Rightarrow> bool" where
  "configured apiUrl = (case apiUrl of None \<Rightarrow> False | Some u \<Rightarrow> u \<noteq> [] \<and> trim u \<noteq> [])"

definition shouldUseCloudApi :: "env \<Rightarrow> Language \<Rightarrow> bool" where
  "shouldUseCloudApi e language =
     (if \<not> configured (apiUrlPref e) then False
      else mapLanguageToApi (name language) \<noteq> None)"

definition unsupportedMessage :: "Language \<Rightarrow> string" where
  "unsupportedMessage language =
     ''This language ('' @ toUpperCase (name language) @
     '') is not yet supported by the cloud compiler. The developers are working on adding support for it. Please use local compilation for now.''"

definition tempPath :: "env \<Rightarrow> string" where
  "tempPath e =
     join (pathm e) (tmpdir e) (''cph_input_'' @ show_nat (stamp e) @ ''_'' @ rand36 e @ ''.txt'')"

text \<open>\<^verbatim>\<open>input && input.trim() !== ''\<close>\<close>

definition hasInput :: "string \<Rightarrow> bool" where
  "hasInput input = (input \<noteq> [] \<and> trim input \<noteq> [])"

text \<open>
  Lines 84 to 113: the temporary input file and the form data. The second component is
  the variable \<^verbatim>\<open>inputFilePath\<close>, which is assigned before the write and so is set
  also when the write throws.
\<close>

definition buildRequest ::
  "env \<Rightarrow> world \<Rightarrow> string \<Rightarrow> string \<Rightarrow> string \<Rightarrow> string
     \<Rightarrow> (thrown + request) \<times> string option \<times> world" where
  "buildRequest e w apiUrl apiLanguage srcPath input =
     (let inputFilePath = (if hasInput input then Some (tempPath e) else None);
          written = (case inputFilePath of
                       None \<Rightarrow> Inr w
                     | Some p \<Rightarrow> writeFileSync e p input w)
      in case written of
           Inl x \<Rightarrow> (Inl x, inputFilePath, w)
         | Inr w1 \<Rightarrow>
             (case readFileSync e srcPath w1 of
                Inl x \<Rightarrow> (Inl x, inputFilePath, w1)
              | Inr sourceCodeBuffer \<Rightarrow>
                  let codeFile = \<lparr>part_name = basename (pathm e) srcPath,
                                  part_bytes = sourceCodeBuffer\<rparr>;
                      ep = stripTrailingSlash apiUrl @ ''/compile''
                  in (case inputFilePath of
                        None \<Rightarrow>
                          (Inr \<lparr>endpoint = ep, lang_part = apiLanguage,
                                code_part = codeFile, input_part = None\<rparr>, inputFilePath, w1)
                      | Some p \<Rightarrow>
                          if existsSync w1 p then
                            (case readFileSync e p w1 of
                               Inl x \<Rightarrow> (Inl x, inputFilePath, w1)
                             | Inr inputBuffer \<Rightarrow>
                                 (Inr \<lparr>endpoint = ep, lang_part = apiLanguage,
                                       code_part = codeFile,
                                       input_part = Some \<lparr>part_name = basename (pathm e) p,
                                                          part_bytes = inputBuffer\<rparr>\<rparr>,
                                  inputFilePath, w1))
                          else
                            (Inr \<lparr>endpoint = ep, lang_part = apiLanguage,
                                  code_part = codeFile, input_part = None\<rparr>, inputFilePath, w1))))"

text \<open>Lines 137 to 176: the result for a response.\<close>

definition handleResponse :: "env \<Rightarrow> response \<Rightarrow> thrown + Run" where
  "handleResponse e resp =
     (let t = t_end e - t_begin e in
      if \<not> response_ok resp then
        (let errorText = (case text_result resp of None \<Rightarrow> ''Unknown error'' | Some b \<Rightarrow> b)
         in Inr \<lparr>stdout = [],
                 stderr = ''API request failed with status '' @ show_nat (status resp) @ '': '' @ errorText,
                 code = Some (int (status resp)), signal = None, time = t, timeOut = False\<rparr>)
      else
        (case json_result resp of
           Inl x \<Rightarrow> Inl x
         | Inr res \<Rightarrow>
             if body_success res then
               Inr \<lparr>stdout = or_else (body_output res) [], stderr = [],
                    code = Some 0, signal = None, time = t, timeOut = False\<rparr>
             else
               Inr \<lparr>stdout = or_else (body_output res) [],
                    stderr = or_else (body_error res) ''Unknown error'',
                    code = Some 1, signal = None, time = t, timeOut = False\<rparr>))"

text \<open>Lines 115 to 135: the two judge-view messages around \<^verbatim>\<open>fetch\<close>.\<close>

definition sendRequest :: "env \<Rightarrow> world \<Rightarrow> request \<Rightarrow> fetch_outcome \<times> world" where
  "sendRequest e w req =
     (fetch e req,
      w\<lparr>log := log w @ [JudgeView ''compiling-start'', Fetch req, JudgeView ''compiling-stop'']\<rparr>)"

text \<open>Lines 177 to 206: the \<^verbatim>\<open>catch\<close> block.\<close>

definition catchBlock :: "env \<Rightarrow> string \<Rightarrow> thrown \<Rightarrow> world \<Rightarrow> Run \<times> world" where
  "catchBlock e apiUrl x w =
     (let m0 = (case x of ErrorObj m \<Rightarrow> m | StringVal s \<Rightarrow> s | OtherVal \<Rightarrow> ''Unknown error'');
          errorMessage =
            (if str_includes m0 ''ECONNREFUSED'' \<or> str_includes m0 ''ENOTFOUND'' then
               ''Cannot connect to cloud compiler API at '' @ apiUrl @
               ''. Please check if the server is running and the URL is correct.''
             else if str_includes m0 ''ETIMEDOUT'' \<or> str_includes m0 ''timeout'' then
               ''Request to cloud compiler API timed out. Please try again.''
             else m0)
      in (\<lparr>stdout = [], stderr = errorMessage, code = Some 1, signal = None,
            time = t_end e - t_begin e, timeOut = False\<rparr>,
          w\<lparr>log := log w @ [ShowError (''Cloud compiler error: '' @ errorMessage)]\<rparr>))"

text \<open>Lines 207 to 217: the \<^verbatim>\<open>finally\<close> block; a failing removal is logged and dropped.\<close>

definition cleanup :: "env \<Rightarrow> string option \<Rightarrow> world \<Rightarrow> world" where
  "cleanup e inputFilePath w =
     (case inputFilePath of
        None \<Rightarrow> w
      | Some p \<Rightarrow>
          if existsSync w p then
            (case unlinkSync e p w of Inl x \<Rightarrow> w | Inr w1 \<Rightarrow> w1)
          else w)"

text \<open>Lines 83 to 176: the \<^verbatim>\<open>try\<close> block.\<close>

definition tryBlock ::
  "env \<Rightarrow> world \<Rightarrow> string \<Rightarrow> string \<Rightarrow> string \<Rightarrow> string
     \<Rightarrow> (thrown + Run) \<times> string option \<times> world" where
  "tryBlock e w apiUrl apiLanguage srcPath input =
     (case buildRequest e w apiUrl apiLanguage srcPath input of
        (Inl x, ifp, w1) \<Rightarrow> (Inl x, ifp, w1)
      | (Inr req, ifp, w1) \<Rightarrow>
          (case sendRequest e w1 req of
             (Rejects x, w2) \<Rightarrow> (Inl x, ifp, w2)
           | (Responds resp, w2) \<Rightarrow> (handleResponse e resp, ifp, w2)))"

definition compileAndRunViaApi ::
  "env \<Rightarrow> world \<Rightarrow> string \<Rightarrow> string \<Rightarrow> Language \<Rightarrow> (thrown + Run) \<times> world" where
  "compileAndRunViaApi e w srcPath input language =
     (case apiUrlPref e of
        None \<Rightarrow> (Inl (ErrorObj ''Cloud API not configured''), w)
      | Some apiUrl \<Rightarrow>
          if \<not> configured (Some apiUrl) then (Inl (ErrorObj ''Cloud API not configured''), w)
          else
            (case mapLanguageToApi (name language) of
               None \<Rightarrow>
                 (Inl (ErrorObj (unsupportedMessage language)),
                  w\<lparr>log := log w @ [ShowWarning (unsupportedMessage language)]\<rparr>)
             | Some apiLanguage \<Rightarrow>
                 (case tryBlock e w apiUrl apiLanguage srcPath input of
                    (Inr r, ifp, w1) \<Rightarrow> (Inr r, cleanup e ifp w1)
                  | (Inl x, ifp, w1) \<Rightarrow>
                      (case catchBlock e apiUrl x w1 of
                         (r, w2) \<Rightarrow> (Inr r, cleanup e ifp w2)))))"

section \<open>executions.ts\<close>

definition fallbackMessage :: "Language \<Rightarrow> string" where
  "fallbackMessage language =
     ''This language ('' @ toUpperCase (name language) @
     '') is not yet supported by the cloud compiler. The developers are working on adding support for it. Falling back to local compilation.''"

text \<open>Lines 29 to 38: the advisory for a configured endpoint and an unmapped language.\<close>

definition advisory :: "env \<Rightarrow> Language \<Rightarrow> world \<Rightarrow> world" where
  "advisory e language w =
     (if configured (apiUrlPref e) \<and> mapLanguageToApi (name language) = None
      then w\<lparr>log := log w @ [ShowWarning (fallbackMessage language)]\<rparr>
      else w)"

definition possibleExtensions :: "string \<Rightarrow> string list" where
  "possibleExtensions n =
     (if n = ''cpp'' then [''.cpp'', ''.cc'', ''.cxx'']
      else if n = ''c'' then [''.c'']
      else if n = ''rust'' then [''.rs'']
      else if n = ''go'' then [''.go'']
      else if n = ''java'' then [''.java'']
      else if n = ''csharp'' then [''.cs'']
      else if n = ''hs'' then [''.hs'']
      else if n = ''cangjie'' then [''.cj'']
      else [])"

text \<open>\<^verbatim>\<open>binPath.replace(/\.(bin|_bin)$/, '')\<close>\<close>

definition stripBinSuffix :: "string \<Rightarrow> string" where
  "stripBinSuffix p =
     (if 4 \<le> length p \<and> drop (length p - 4) p = ''.bin'' then take (length p - 4) p
      else if 5 \<le> length p \<and> drop (length p - 5) p = ''._bin'' then take (length p - 5) p
      else p)"

text \<open>Lines 69 to 76: the first candidate that exists, or the base path.\<close>

fun probe :: "world \<Rightarrow> string \<Rightarrow> string list \<Rightarrow> string" where
  "probe w basePath [] = basePath"
| "probe w basePath (ext # exts) =
     (if existsSync w (basePath @ ext) then basePath @ ext else probe w basePath exts)"

text \<open>Lines 48 to 85.\<close>

definition resolveSrcPath :: "env \<Rightarrow> world \<Rightarrow> Language \<Rightarrow> string \<Rightarrow> string" where
  "resolveSrcPath e w language binPath =
     (if skipCompile language then binPath
      else
        (let binExt = extname (pathm e) binPath in
         if binExt = ''.bin'' \<or> binExt = ''_bin'' then
           probe w (stripBinSuffix binPath) (possibleExtensions (name language))
         else if binExt = ''.class'' then
           join (pathm e) (dirname (pathm e) binPath)
                (basename_ext (pathm e) binPath ''.class'' @ ''.java'')
         else binPath))"

text \<open>
  Where a call goes: to \<^verbatim>\<open>compileAndRunViaApi\<close> with a source path, to the early
  return of lines 94 to 102, or to a local process.
\<close>

datatype route = RouteRemote string | RouteSourceFailure | RouteLocal

definition dispatch :: "env \<Rightarrow> world \<Rightarrow> Language \<Rightarrow> string \<Rightarrow> route" where
  "dispatch e w language binPath =
     (if shouldUseCloudApi e language then
        (let srcPath = resolveSrcPath e w language binPath in
         if \<not> existsSync w srcPath then
           (case activeTextEditor e of
              None \<Rightarrow> RouteSourceFailure
            | Some ed \<Rightarrow> if \<not> isUntitled ed then RouteRemote (fileName ed) else RouteSourceFailure)
         else RouteRemote srcPath)
      else RouteLocal)"

definition sourceFailure :: Run where
  "sourceFailure =
     \<lparr>stdout = [], stderr = ''Could not determine source file path for cloud compilation'',
      code = Some 1, signal = None, time = 0, timeOut = False\<rparr>"

text \<open>Lines 134 to 137: the descriptor object itself is assigned to.\<close>

definition applyAlias :: "env \<Rightarrow> Language \<Rightarrow> Language" where
  "applyAlias e language =
     (if platform e = ''win32'' \<and> compiler language = ''python3''
      then language\<lparr>compiler := ''python''\<rparr> else language)"

text \<open>Lines 140 to 205: the launch convention.\<close>

definition spawnSpec :: "env \<Rightarrow> Language \<Rightarrow> string \<Rightarrow> spawn_spec" where
  "spawnSpec e language binPath =
     (if name language = ''python'' \<or> name language = ''ruby'' \<or> name language = ''js'' then
        \<lparr>command = compiler language, spawn_args = binPath # args language, with_opts = True\<rparr>
      else if name language = ''java'' then
        \<lparr>command = ''java'',
         spawn_args = (if onlineJudgeEnv e then [''-DONLINE_JUDGE''] else []) @
                      [''-cp'', dirname (pathm e) binPath, butlast (parse_name (pathm e) binPath)],
         with_opts = False\<rparr>
      else if name language = ''csharp'' then
        (if str_includes (compiler language) ''dotnet'' then
           \<lparr>command = join (pathm e) binPath
                        (if platform e = ''linux'' then ''.cphcsrun'' else ''.cphcsrun'' @ ''.exe''),
            spawn_args = [''/stack:67108864''], with_opts = True\<rparr>
         else \<lparr>command = ''mono'', spawn_args = [binPath], with_opts = True\<rparr>)
      else \<lparr>command = binPath, spawn_args = [], with_opts = True\<rparr>)"

text \<open>
  Lines 110 to 251, up to the point where the promise is returned: the result object,
  the timer, the spawn (with Node's own timer when \<^verbatim>\<open>spawnOpts\<close> is passed and
  \<^verbatim>\<open>config.timeout\<close> is positive), the push on \<^verbatim>\<open>runningBinaries\<close>, the write to
  standard input.
\<close>

definition spawnLocal :: "env \<Rightarrow> world \<Rightarrow> Language \<Rightarrow> string \<Rightarrow> string \<Rightarrow> nat \<times> world" where
  "spawnLocal e w language binPath input =
     (let pid = spawned w;
          c = \<lparr>result = \<lparr>stdout = [], stderr = [], code = None, signal = None,
                          time = 0, timeOut = False\<rparr>,
               killer_armed = True,
               spawn_timer_armed = (with_opts (spawnSpec e language binPath) \<and>
                                    0 < configTimeout e),
               began = t_begin e, resolved = False,
               launcher = compiler language\<rparr>
      in (pid,
          w\<lparr>log := log w @ [Spawn pid (spawnSpec e language binPath),
                              StdinWrite pid input, StdinEnd pid],
            runningBinaries := runningBinaries w @ [pid],
            procs := (procs w)(pid \<mapsto> c),
            spawned := Suc pid\<rparr>))"

text \<open>
  How a call of \<^verbatim>\<open>runTestCase\<close> leaves: its promise is resolved with a result at once,
  it is rejected with a thrown value, or it stays pending on a local process.
\<close>

datatype outcome = Returned Run | Rejected thrown | Pending nat

text \<open>
  \<^verbatim>\<open>runTestCase\<close>. The descriptor is an object passed by reference, so the model
  returns it as it is after the call.
\<close>

definition runTestCase ::
  "env \<Rightarrow> world \<Rightarrow> Language \<Rightarrow> string \<Rightarrow> string \<Rightarrow> outcome \<times> Language \<times> world" where
  "runTestCase e w language binPath input =
     (let w1 = advisory e language w in
      case dispatch e w1 language binPath of
        RouteRemote srcPath \<Rightarrow>
          (case compileAndRunViaApi e w1 srcPath input language of
             (Inl x, w2) \<Rightarrow> (Rejected x, language, w2)
           | (Inr r, w2) \<Rightarrow> (Returned r, language, w2))
      | RouteSourceFailure \<Rightarrow> (Returned sourceFailure, language, w1)
      | RouteLocal \<Rightarrow>
          (let language' = applyAlias e language in
           case spawnLocal e w1 language' binPath input of
             (pid, w2) \<Rightarrow> (Pending pid, language', w2)))"

text \<open>
  What happens to the local calls afterwards: the \<^verbatim>\<open>killer\<close> timer of a call fires,
  its process reports \<^verbatim>\<open>exit\<close> with a code and a signal, or \<^verbatim>\<open>error\<close> with the
  error's name (both with the clock reading), data arrives on its output streams,
  \<^verbatim>\<open>killRunning\<close> is called, or the timer that Node started for the \<^verbatim>\<open>timeout\<close> of
  \<^verbatim>\<open>spawnOpts\<close> elapses.
\<close>

datatype stimulus =
    TimerFire nat
  | SpawnTimeout nat
  | Exit nat "int option" "string option" int
  | ProcError nat string int
  | StdoutData nat string
  | StderrData nat string
  | KillRunning

text \<open>
  The handlers of lines 129 to 132, 207 to 212, 217 to 231 and 241 to 250, and
  \<^verbatim>\<open>killRunning\<close>. \<^verbatim>\<open>runningBinaries.pop()\<close> removes the last element of the array.
  A timer that has fired or was cleared never fires. When Node's timer for the
  \<^verbatim>\<open>timeout\<close> of \<^verbatim>\<open>spawnOpts\<close> elapses, \<^verbatim>\<open>kill\<close> is called on the child and
  the result object is not touched; the \<^verbatim>\<open>exit\<close> of the child clears that timer.
\<close>

fun handle :: "world \<Rightarrow> stimulus \<Rightarrow> world" where
  "handle w (TimerFire p) =
     (case procs w p of
        None \<Rightarrow> w
      | Some c \<Rightarrow>
          if killer_armed c then
            w\<lparr>procs := (procs w)(p \<mapsto> c\<lparr>killer_armed := False,
                                          result := (result c)\<lparr>timeOut := True\<rparr>\<rparr>),
              log := log w @ [KillRequest p]\<rparr>
          else w)"
| "handle w (SpawnTimeout p) =
     (case procs w p of
        None \<Rightarrow> w
      | Some c \<Rightarrow>
          if spawn_timer_armed c then
            w\<lparr>procs := (procs w)(p \<mapsto> c\<lparr>spawn_timer_armed := False\<rparr>),
              log := log w @ [KillRequest p]\<rparr>
          else w)"
| "handle w (Exit p cd sg now) =
     (case procs w p of
        None \<Rightarrow> w
      | Some c \<Rightarrow>
          w\<lparr>procs := (procs w)(p \<mapsto> c\<lparr>killer_armed := False,
                                        spawn_timer_armed := False,
                                        result := (result c)\<lparr>code := cd, signal := sg,
                                                             time := now - began c\<rparr>,
                                        resolved := True\<rparr>),
            runningBinaries := butlast (runningBinaries w)\<rparr>)"
| "handle w (ProcError p nm now) =
     (case procs w p of
        None \<Rightarrow> w
      | Some c \<Rightarrow>
          w\<lparr>procs := (procs w)(p \<mapsto> c\<lparr>killer_armed := False,
                                        result := (result c)\<lparr>code := Some 1, signal := Some nm,
                                                             time := now - began c\<rparr>,
                                        resolved := True\<rparr>),
            runningBinaries := butlast (runningBinaries w),
            log := log w @ [ShowError (''Could not launch testcase process. Is '' @ [CHR 0x27] @
                                        launcher c @ [CHR 0x27] @ '' in your PATH?'')]\<rparr>)"
| "handle w (StdoutData p d) =
     (case procs w p of
        None \<Rightarrow> w
      | Some c \<Rightarrow> w\<lparr>procs := (procs w)(p \<mapsto> c\<lparr>result := (result c)\<lparr>stdout := stdout (result c) @ d\<rparr>\<rparr>)\<rparr>)"
| "handle w (StderrData p d) =
     (case procs w p of
        None \<Rightarrow> w
      | Some c \<Rightarrow> w\<lparr>procs := (procs w)(p \<mapsto> c\<lparr>result := (result c)\<lparr>stderr := stderr (result c) @ d\<rparr>\<rparr>)\<rparr>)"
| "handle w KillRunning = w\<lparr>log := log w @ map KillRequest (runningBinaries w)\<rparr>"

text \<open>The processes that were spawned and have not reported \<^verbatim>\<open>exit\<close>.\<close>

fun exited :: "stimulus list \<Rightarrow> nat list" where
  "exited [] = []"
| "exited (Exit p cd sg now # ss) = p # exited ss"
| "exited (s # ss) = exited ss"

definition stillRunning :: "nat list \<Rightarrow> stimulus list \<Rightarrow> nat list" where
  "stillRunning started ss = filter (\<lambda>p. p \<notin> set (exited ss)) started"

section \<open>Example environment\<close>

text \<open>
  Node's POSIX \<^verbatim>\<open>path\<close> functions on absolute paths without a trailing slash and
  without \<^verbatim>\<open>.\<close> and \<^verbatim>\<open>..\<close> segments; it instantiates the environment in the examples.
\<close>

definition posix_basename :: "string \<Rightarrow> string" where
  "posix_basename p = rev (takeWhile (\<lambda>c. c \<noteq> CHR ''/'') (rev p))"

definition posix_dirname :: "string \<Rightarrow> string" where
  "posix_dirname p =
     (let d = rev (drop 1 (dropWhile (\<lambda>c. c \<noteq> CHR ''/'') (rev p)))
      in if CHR ''/'' \<notin> set p then ''.'' else if d = [] then ''/'' else d)"

definition posix_extname :: "string \<Rightarrow> string" where
  "posix_extname p =
     (let b = posix_basename p;
          suffix = rev (takeWhile (\<lambda>c. c \<noteq> CHR ''.'') (rev b))
      in if CHR ''.'' \<notin> set b \<or> Suc (length suffix) = length b then [] else CHR ''.'' # suffix)"

definition posix_basename_ext :: "string \<Rightarrow> string \<Rightarrow> string" where
  "posix_basename_ext p ext =
     (let b = posix_basename p
      in if length ext < length b \<and> drop (length b - length ext) b = ext
         then take (length b - length ext) b else b)"

definition posix_parse_name :: "string \<Rightarrow> string" where
  "posix_parse_name p =
     (let b = posix_basename p in take (length b - length (posix_extname p)) b)"

definition posix_path :: path_module where
  "posix_path =
     \<lparr>extname = posix_extname, dirname = posix_dirname, basename = posix_basename,
      basename_ext = posix_basename_ext, join = (\<lambda>a b. a @ ''/'' @ b),
      parse_name = posix_parse_name\<rparr>"

definition emptyWorld :: world where
  "emptyWorld = \<lparr>files = Map.empty, log = [], runningBinaries = [], procs = Map.empty, spawned = 0\<rparr>"

definition pythonLang :: Language where
  "pythonLang = \<lparr>name = ''python'', compiler = ''python3'', args = [], skipCompile = True\<rparr>"

definition rubyLang :: Language where
  "rubyLang = \<lparr>name = ''ruby'', compiler = ''ruby'', args = [], skipCompile = True\<rparr>"

definition cppLang :: Language where
  "cppLang = \<lparr>name = ''cpp'', compiler = ''g++'', args = [''-std=c++17''], skipCompile = False\<rparr>"

definition okBody :: api_body where
  "okBody = \<lparr>body_success = True, body_output = Some (''42'' @ [CHR 0x0A]), body_error = None\<rparr>"

definition okResponse :: response where
  "okResponse = \<lparr>status = 200, text_result = None, json_result = Inr okBody\<rparr>"

text \<open>An endpoint is configured and answers 200 with \<open>okBody\<close>; no file operation fails.\<close>

definition exampleEnv :: env where
  "exampleEnv =
     \<lparr>apiUrlPref = Some ''http://localhost:3000/'', platform = ''linux'', onlineJudgeEnv = False,
      activeTextEditor = None, tmpdir = ''/tmp'', stamp = 1700000000000, rand36 = ''k3j9x0abc'',
      t_begin = 1000, t_end = 1250, fs_fault = (\<lambda>_. None),
      fetch = (\<lambda>_. Responds okResponse),
      pathm = posix_path, configTimeout = 10000\<rparr>"

text \<open>The endpoint answers 500 with the body text \<^verbatim>\<open>internal error\<close>.\<close>

definition response500 :: response where
  "response500 = \<lparr>status = 500, text_result = Some ''internal error'',
                   json_result = Inl (ErrorObj ''Unexpected token'')\<rparr>"

definition env500 :: env where
  "env500 = exampleEnv\<lparr>fetch := (\<lambda>_. Responds response500)\<rparr>"

definition result500 :: Run where
  "result500 =
     \<lparr>stdout = [], stderr = ''API request failed with status 500: internal error'',
      code = Some 500, signal = None, time = 250, timeOut = False\<rparr>"

text \<open>The endpoint answers 200 with \<^verbatim>\<open>{"success": false, "output": "", "error": ""}\<close>.\<close>

definition emptyErrorBody :: api_body where
  "emptyErrorBody = \<lparr>body_success = False, body_output = Some [], body_error = Some []\<rparr>"

definition envEmptyError :: env where
  "envEmptyError =
     exampleEnv\<lparr>fetch := (\<lambda>_. Responds \<lparr>status = 200, text_result = None,
                                           json_result = Inr emptyErrorBody\<rparr>)\<rparr>"

text \<open>The request for the source \<^verbatim>\<open>/w/a.py\<close> with the input \<^verbatim>\<open>1 2\<close>.\<close>

definition exampleRequest :: request where
  "exampleRequest =
     \<lparr>endpoint = ''http://localhost:3000/compile'', lang_part = ''python'',
      code_part = \<lparr>part_name = ''a.py'', part_bytes = ''print(42)''\<rparr>,
      input_part = Some \<lparr>part_name = ''cph_input_1700000000000_k3j9x0abc.txt'',
                         part_bytes = ''1 2''\<rparr>\<rparr>"

text \<open>Removing a file fails (the operation is not permitted); everything else succeeds.\<close>

definition envUnlinkFails :: env where
  "envUnlinkFails =
     exampleEnv\<lparr>fs_fault := (\<lambda>op. case op of
                                     OpUnlink p \<Rightarrow>
                                       Some (ErrorObj (''EPERM: operation not permitted, unlink '' @ p))
                                   | _ \<Rightarrow> None)\<rparr>"

text \<open>No endpoint is configured; the second environment is on Windows.\<close>

definition localEnv :: env where
  "localEnv = exampleEnv\<lparr>apiUrlPref := None\<rparr>"

definition winEnv :: env where
  "winEnv = localEnv\<lparr>platform := ''win32''\<rparr>"

definition exampleWorld :: world where
  "exampleWorld = emptyWorld\<lparr>files := [''/w/a.py'' \<mapsto> ''print(42)'']\<rparr>"

section \<open>Notions the properties are stated with\<close>

text \<open>The warning notifications among the effects.\<close>

fun warnings :: "event list \<Rightarrow> string list" where
  "warnings [] = []"
| "warnings (ShowWarning m # evs) = m # warnings evs"
| "warnings (ev # evs) = warnings evs"

text \<open>The files written, the files removed and the requests sent among the effects.\<close>

fun writes :: "event list \<Rightarrow> (string \<times> string) list" where
  "writes [] = []"
| "writes (FsWrite p c # evs) = (p, c) # writes evs"
| "writes (ev # evs) = writes evs"

fun removals :: "event list \<Rightarrow> string list" where
  "removals [] = []"
| "removals (FsUnlink p # evs) = p # removals evs"
| "removals (ev # evs) = removals evs"

fun requests :: "event list \<Rightarrow> request list" where
  "requests [] = []"
| "requests (Fetch req # evs) = req # requests evs"
| "requests (ev # evs) = requests evs"

text \<open>How often \<^verbatim>\<open>kill\<close> was called on a process.\<close>

definition killRequests :: "nat \<Rightarrow> event list \<Rightarrow> nat" where
  "killRequests p evs = length (filter (\<lambda>ev. ev = KillRequest p) evs)"

text \<open>How many of: exit code present, signal present, \<open>timeOut\<close>, hold of a result.\<close>

definition endings :: "Run \<Rightarrow> nat" where
  "endings r =
     (if code r \<noteq> None then 1 else 0) + (if signal r \<noteq> None then 1 else 0) +
     (if timeOut r then 1 else 0)"

text \<open>A stimulus whose handler resolves the promise of the call on process \<open>p\<close>.\<close>

fun settles :: "nat \<Rightarrow> stimulus \<Rightarrow> bool" where
  "settles p (Exit q cd sg now) = (q = p)"
| "settles p (ProcError q nm now) = (q = p)"
| "settles p s = False"

text \<open>The effects of a call that leads from \<open>w\<close> to \<open>w'\<close>: what the log gained.\<close>

definition emitted :: "world \<Rightarrow> world \<Rightarrow> event list" where
  "emitted w w' = drop (length (log w)) (log w')"

definition run :: "world \<Rightarrow> stimulus list \<Rightarrow> world" where
  "run w ss = foldl handle w ss"

section \<open>Example runs\<close>

text \<open>
  A local call on a launcher that cannot be started: the process reports \<^verbatim>\<open>error\<close>
  (the name of the error object is \<^verbatim>\<open>Error\<close>).
\<close>

definition spawnFailureWorld :: world where
  "spawnFailureWorld =
     handle (snd (snd (runTestCase localEnv exampleWorld rubyLang ''/w/a.rb'' [])))
            (ProcError 0 ''Error'' 1010)"

text \<open>
  A local call whose timer fires; the process handles the termination request and exits
  with code 0.
\<close>

definition gracefulExitWorld :: world where
  "gracefulExitWorld =
     run (snd (snd (runTestCase localEnv exampleWorld pythonLang ''/w/a.py'' ''1 2'')))
         [TimerFire 0, Exit 0 (Some 0) None 4000]"

text \<open>
  A local call whose timer fires and whose process does not react; later Node's timer
  for the \<^verbatim>\<open>timeout\<close> of \<^verbatim>\<open>spawnOpts\<close> elapses, and the process is then reported
  as ended by the signal.
\<close>

definition timedOutCall :: world where
  "timedOutCall = snd (snd (runTestCase localEnv exampleWorld pythonLang ''/w/a.py'' ''1 2''))"

definition waitingStimuli :: "stimulus list" where
  "waitingStimuli = [StdoutData 0 ''4'', TimerFire 0, SpawnTimeout 0, StderrData 0 ''x'']"

text \<open>Two local calls, the second started while the first is running.\<close>

definition twoCallsWorld :: world where
  "twoCallsWorld =
     snd (snd (runTestCase localEnv
                 (snd (snd (runTestCase localEnv exampleWorld pythonLang ''/w/a.py'' ''1'')))
                 pythonLang ''/w/b.py'' ''2''))"

section \<open>Evaluation of the examples\<close>

lemmas eval_defs = compileAndRunViaApi_def tryBlock_def buildRequest_def sendRequest_def
  handleResponse_def catchBlock_def cleanup_def writeFileSync_def readFileSync_def unlinkSync_def
  existsSync_def configured_def mapLanguageToApi_def hasInput_def tempPath_def trim_def
  isWhiteSpace_def response_ok_def or_else_def stripTrailingSlash_def
  posix_path_def posix_basename_def show_nat.simps digit_char_def Let_def
  exampleEnv_def exampleWorld_def emptyWorld_def pythonLang_def okBody_def okResponse_def
  env500_def response500_def result500_def envEmptyError_def emptyErrorBody_def
  exampleRequest_def localEnv_def winEnv_def rubyLang_def cppLang_def envUnlinkFails_def

section \<open>The remote client\<close>

lemma writes_append: "writes (xs @ ys) = writes xs @ writes ys"
  by (induction xs rule: writes.induct) simp_all

lemma requests_append: "requests (xs @ ys) = requests xs @ requests ys"
  by (induction xs rule: requests.induct) simp_all

lemma removals_append: "removals (xs @ ys) = removals xs @ removals ys"
  by (induction xs rule: removals.induct) simp_all

lemma warnings_append: "warnings (xs @ ys) = warnings xs @ warnings ys"
  by (induction xs rule: warnings.induct) simp_all

lemma emitted_append: "log w' = log w @ evs \<Longrightarrow> emitted w w' = evs"
  by (simp add: emitted_def)

subsection \<open>The shape of the results\<close>

lemma handleResponse_shape:
  "handleResponse e resp = Inr r \<Longrightarrow> code r \<noteq> None \<and> signal r = None \<and> \<not> timeOut r"
  by (auto simp: handleResponse_def Let_def split: if_splits sum.splits)

lemma catchBlock_shape:
  "catchBlock e u x w = (r, w') \<Longrightarrow> code r = Some 1 \<and> signal r = None \<and> \<not> timeOut r"
  by (auto simp: catchBlock_def Let_def)

lemma tryBlock_shape:
  "tryBlock e w u tag src inp = (Inr r, ifp, w1) \<Longrightarrow>
     code r \<noteq> None \<and> signal r = None \<and> \<not> timeOut r"
  by (auto simp: tryBlock_def sendRequest_def split: prod.splits sum.splits fetch_outcome.splits
      dest: handleResponse_shape)

lemma compileAndRunViaApi_shape:
  "compileAndRunViaApi e w src inp language = (Inr r, w') \<Longrightarrow>
     code r \<noteq> None \<and> signal r = None \<and> \<not> timeOut r"
  unfolding compileAndRunViaApi_def
  by (auto split: option.splits if_splits prod.splits sum.splits
      dest: tryBlock_shape catchBlock_shape)

subsection \<open>The three ways through the function\<close>

lemma api_unconfigured:
  "\<not> configured (apiUrlPref e) \<Longrightarrow>
     compileAndRunViaApi e w src inp language = (Inl (ErrorObj ''Cloud API not configured''), w)"
  by (cases "apiUrlPref e") (simp_all add: compileAndRunViaApi_def)

lemma api_unmapped:
  "configured (apiUrlPref e) \<Longrightarrow> mapLanguageToApi (name language) = None \<Longrightarrow>
     compileAndRunViaApi e w src inp language =
       (Inl (ErrorObj (unsupportedMessage language)),
        w\<lparr>log := log w @ [ShowWarning (unsupportedMessage language)]\<rparr>)"
  by (cases "apiUrlPref e") (simp_all add: compileAndRunViaApi_def configured_def)

lemma api_configured:
  assumes "apiUrlPref e = Some u" "configured (Some u)" "mapLanguageToApi (name language) = Some tag"
  shows "compileAndRunViaApi e w src inp language =
           (case tryBlock e w u tag src inp of
              (Inr r, ifp, w1) \<Rightarrow> (Inr r, cleanup e ifp w1)
            | (Inl x, ifp, w1) \<Rightarrow>
                (Inr (fst (catchBlock e u x w1)), cleanup e ifp (snd (catchBlock e u x w1))))"
  using assms by (simp add: compileAndRunViaApi_def split: prod.splits sum.splits)

lemma api_returns:
  assumes "configured (apiUrlPref e)" "mapLanguageToApi (name language) = Some tag"
  shows "\<exists>r w'. compileAndRunViaApi e w src inp language = (Inr r, w')"
proof -
  obtain u where u: "apiUrlPref e = Some u" "configured (Some u)"
    using assms(1) by (cases "apiUrlPref e") (auto simp: configured_def)
  show ?thesis
    by (simp add: api_configured [OF u assms(2)] split: prod.splits sum.splits)
qed

subsection \<open>The request and the temporary file\<close>

lemma buildRequest_ifp:
  "fst (snd (buildRequest e w u tag src inp)) = (if hasInput inp then Some (tempPath e) else None)"
  by (simp add: buildRequest_def Let_def writeFileSync_def readFileSync_def
      split: option.splits sum.splits)

lemma buildRequest_world:
  "snd (snd (buildRequest e w u tag src inp)) =
     (if hasInput inp \<and> fs_fault e (OpWrite (tempPath e)) = None
      then w\<lparr>files := (files w)(tempPath e \<mapsto> inp), log := log w @ [FsWrite (tempPath e) inp]\<rparr>
      else w)"
  by (simp add: buildRequest_def Let_def writeFileSync_def readFileSync_def
      split: option.splits sum.splits)

lemma buildRequest_input_part:
  "fst (buildRequest e w u tag src inp) = Inr req \<Longrightarrow>
     input_part req =
       (if hasInput inp
        then Some \<lparr>part_name = basename (pathm e) (tempPath e), part_bytes = inp\<rparr> else None)"
  by (auto simp: buildRequest_def Let_def writeFileSync_def readFileSync_def existsSync_def
      split: option.splits sum.splits if_splits)

lemma buildRequest_written:
  "fst (buildRequest e w u tag src inp) = Inr req \<Longrightarrow> hasInput inp \<Longrightarrow>
     fs_fault e (OpWrite (tempPath e)) = None"
  by (auto simp: buildRequest_def Let_def writeFileSync_def split: option.splits sum.splits if_splits)

lemma buildRequest_built:
  assumes "hasInput inp" "fs_fault e (OpWrite (tempPath e)) = None"
    "fs_fault e (OpRead (tempPath e)) = None" "fs_fault e (OpRead src) = None"
    "((files w)(tempPath e \<mapsto> inp)) src = Some content"
  shows "fst (buildRequest e w u tag src inp) =
           Inr \<lparr>endpoint = stripTrailingSlash u @ ''/compile'', lang_part = tag,
                code_part = \<lparr>part_name = basename (pathm e) src, part_bytes = content\<rparr>,
                input_part = Some \<lparr>part_name = basename (pathm e) (tempPath e),
                                   part_bytes = inp\<rparr>\<rparr>"
  using assms
  by (auto simp: buildRequest_def Let_def writeFileSync_def readFileSync_def existsSync_def
      split: option.splits sum.splits if_splits)

lemma tryBlock_parts:
  "tryBlock e w u tag src inp =
     (case fst (buildRequest e w u tag src inp) of
        Inl x \<Rightarrow> (Inl x, fst (snd (buildRequest e w u tag src inp)),
                  snd (snd (buildRequest e w u tag src inp)))
      | Inr req \<Rightarrow>
          (case fetch e req of Rejects x \<Rightarrow> Inl x | Responds resp \<Rightarrow> handleResponse e resp,
           fst (snd (buildRequest e w u tag src inp)),
           (snd (snd (buildRequest e w u tag src inp)))
             \<lparr>log := log (snd (snd (buildRequest e w u tag src inp))) @
                     [JudgeView ''compiling-start'', Fetch req, JudgeView ''compiling-stop'']\<rparr>))"
  by (auto simp: tryBlock_def sendRequest_def split: prod.splits sum.splits fetch_outcome.splits)

lemma tryBlock_ifp:
  "fst (snd (tryBlock e w u tag src inp)) = (if hasInput inp then Some (tempPath e) else None)"
  by (simp add: tryBlock_parts buildRequest_ifp split: sum.splits)

subsection \<open>The final cleanup\<close>

lemma cleanup_log:
  "\<exists>tl. log (cleanup e ifp w) = log w @ tl \<and> writes tl = [] \<and> requests tl = [] \<and> warnings tl = []"
  by (auto simp: cleanup_def unlinkSync_def split: option.splits sum.splits)

lemma cleanup_frame:
  "runningBinaries (cleanup e ifp w) = runningBinaries w \<and> procs (cleanup e ifp w) = procs w \<and>
   spawned (cleanup e ifp w) = spawned w"
  by (auto simp: cleanup_def unlinkSync_def split: option.splits sum.splits)

lemma cleanup_removes:
  "fs_fault e (OpUnlink p) = None \<Longrightarrow> files (cleanup e (Some p) w) p = None"
  by (auto simp: cleanup_def unlinkSync_def existsSync_def split: option.splits sum.splits)

lemma cleanup_absent:
  "files w p = None \<Longrightarrow> cleanup e (Some p) w = w"
  by (simp add: cleanup_def existsSync_def)

lemma cleanup_files:
  "files (cleanup e (Some p) w) p = (if fs_fault e (OpUnlink p) = None then None else files w p)"
  by (auto simp: cleanup_def unlinkSync_def existsSync_def split: option.splits sum.splits)

lemma cleanup_log_exact:
  "log (cleanup e (Some p) w) =
     log w @ (if files w p \<noteq> None \<and> fs_fault e (OpUnlink p) = None then [FsUnlink p] else [])"
  by (auto simp: cleanup_def unlinkSync_def existsSync_def split: option.splits sum.splits)

text \<open>The world in which the cleanup starts: the files are those left by lines 84 to 113.\<close>

lemma catchBlock_world:
  "\<exists>m. snd (catchBlock e u x w) = w\<lparr>log := log w @ [ShowError m]\<rparr>"
proof -
  have "snd (catchBlock e u x w) =
      w\<lparr>log := log w @ [ShowError (''Cloud compiler error: '' @ stderr (fst (catchBlock e u x w)))]\<rparr>"
    by (simp add: catchBlock_def Let_def)
  then show ?thesis by blast
qed

lemma api_before_cleanup:
  assumes "apiUrlPref e = Some u" "configured (Some u)" "mapLanguageToApi (name language) = Some tag"
  shows "\<exists>r w2 mid. compileAndRunViaApi e w src inp language =
             (Inr r, cleanup e (fst (snd (buildRequest e w u tag src inp))) w2) \<and>
           files w2 = files (snd (snd (buildRequest e w u tag src inp))) \<and>
           log w2 = log (snd (snd (buildRequest e w u tag src inp))) @ mid \<and> removals mid = []"
proof -
  let ?ifp = "fst (snd (buildRequest e w u tag src inp))"
  let ?wb = "snd (snd (buildRequest e w u tag src inp))"
  show ?thesis
  proof (cases "fst (buildRequest e w u tag src inp)")
    case (Inl x)
    obtain m where m: "snd (catchBlock e u x ?wb) = ?wb\<lparr>log := log ?wb @ [ShowError m]\<rparr>"
      using catchBlock_world by blast
    have "compileAndRunViaApi e w src inp language =
        (Inr (fst (catchBlock e u x ?wb)), cleanup e ?ifp (?wb\<lparr>log := log ?wb @ [ShowError m]\<rparr>))"
      using Inl m by (simp add: api_configured [OF assms] tryBlock_parts case_prod_beta)
    moreover have "files (?wb\<lparr>log := log ?wb @ [ShowError m]\<rparr>) = files ?wb"
      "log (?wb\<lparr>log := log ?wb @ [ShowError m]\<rparr>) = log ?wb @ [ShowError m]"
      "removals [ShowError m] = []"
      by simp_all
    ultimately show ?thesis by blast
  next
    case (Inr req)
    let ?ws = "?wb\<lparr>log := log ?wb @
                  [JudgeView ''compiling-start'', Fetch req, JudgeView ''compiling-stop'']\<rparr>"
    show ?thesis
    proof (cases "case fetch e req of Rejects x \<Rightarrow> Inl x | Responds resp \<Rightarrow> handleResponse e resp")
      case (Inl x)
      obtain m where m: "snd (catchBlock e u x ?ws) = ?ws\<lparr>log := log ?ws @ [ShowError m]\<rparr>"
        using catchBlock_world by blast
      have "compileAndRunViaApi e w src inp language =
        (Inr (fst (catchBlock e u x ?ws)), cleanup e ?ifp (?ws\<lparr>log := log ?ws @ [ShowError m]\<rparr>))"
        using Inl \<open>fst (buildRequest e w u tag src inp) = Inr req\<close> m
        by (simp add: api_configured [OF assms] tryBlock_parts case_prod_beta)
      moreover have "files (?ws\<lparr>log := log ?ws @ [ShowError m]\<rparr>) = files ?wb"
        "log (?ws\<lparr>log := log ?ws @ [ShowError m]\<rparr>) = log ?wb @
           [JudgeView ''compiling-start'', Fetch req, JudgeView ''compiling-stop'', ShowError m]"
        "removals [JudgeView ''compiling-start'', Fetch req, JudgeView ''compiling-stop'',
                   ShowError m] = []"
        by simp_all
      ultimately show ?thesis by blast
    next
      case (Inr r)
      have "compileAndRunViaApi e w src inp language = (Inr r, cleanup e ?ifp ?ws)"
        using Inr \<open>fst (buildRequest e w u tag src inp) = Inr req\<close>
        by (simp add: api_configured [OF assms] tryBlock_parts case_prod_beta)
      moreover have "files ?ws = files ?wb"
        "log ?ws = log ?wb @
           [JudgeView ''compiling-start'', Fetch req, JudgeView ''compiling-stop'']"
        "removals [JudgeView ''compiling-start'', Fetch req, JudgeView ''compiling-stop''] = []"
        by simp_all
      ultimately show ?thesis by blast
    qed
  qed
qed

subsection \<open>What a call adds to the log\<close>

lemma api_log:
  assumes "apiUrlPref e = Some u" "configured (Some u)" "mapLanguageToApi (name language) = Some tag"
  shows "\<exists>tl. log (snd (compileAndRunViaApi e w src inp language)) =
           log (snd (snd (buildRequest e w u tag src inp))) @
           (case fst (buildRequest e w u tag src inp) of
              Inl x \<Rightarrow> []
            | Inr req \<Rightarrow> [JudgeView ''compiling-start'', Fetch req, JudgeView ''compiling-stop'']) @ tl
           \<and> writes tl = [] \<and> requests tl = [] \<and> warnings tl = []"
proof -
  obtain res ifp w1 where t: "tryBlock e w u tag src inp = (res, ifp, w1)"
    by (cases "tryBlock e w u tag src inp") auto
  show ?thesis
  proof (cases "fst (buildRequest e w u tag src inp)")
    case (Inl x)
    with t have r: "res = Inl x" "w1 = snd (snd (buildRequest e w u tag src inp))"
      by (auto simp: tryBlock_parts)
    obtain tl where
      "log (cleanup e ifp (snd (catchBlock e u x w1))) = log (snd (catchBlock e u x w1)) @ tl"
      "writes tl = []" "requests tl = []" "warnings tl = []"
      using cleanup_log by blast
    then show ?thesis using Inl r t assms
      by (simp add: api_configured catchBlock_def Let_def)
  next
    case (Inr req)
    with t have w1: "log w1 = log (snd (snd (buildRequest e w u tag src inp))) @
        [JudgeView ''compiling-start'', Fetch req, JudgeView ''compiling-stop'']"
      by (auto simp: tryBlock_parts)
    show ?thesis
    proof (cases res)
      case (Inl x)
      obtain tl where
        "log (cleanup e ifp (snd (catchBlock e u x w1))) = log (snd (catchBlock e u x w1)) @ tl"
        "writes tl = []" "requests tl = []" "warnings tl = []"
        using cleanup_log by blast
      then show ?thesis using Inl Inr w1 t assms
        by (simp add: api_configured catchBlock_def Let_def)
    next
      case (Inr r)
      obtain tl where "log (cleanup e ifp w1) = log w1 @ tl"
        "writes tl = []" "requests tl = []" "warnings tl = []"
        using cleanup_log by blast
      then show ?thesis using Inr \<open>fst (buildRequest e w u tag src inp) = Inr req\<close> w1 t assms
        by (simp add: api_configured)
    qed
  qed
qed

lemma api_emitted:
  assumes "apiUrlPref e = Some u" "configured (Some u)" "mapLanguageToApi (name language) = Some tag"
  shows "writes (emitted w (snd (compileAndRunViaApi e w src inp language))) =
           (if hasInput inp \<and> fs_fault e (OpWrite (tempPath e)) = None
            then [(tempPath e, inp)] else [])
         \<and> requests (emitted w (snd (compileAndRunViaApi e w src inp language))) =
           (case fst (buildRequest e w u tag src inp) of Inl x \<Rightarrow> [] | Inr req \<Rightarrow> [req])
         \<and> warnings (emitted w (snd (compileAndRunViaApi e w src inp language))) = []"
proof -
  let ?mid = "case fst (buildRequest e w u tag src inp) of
              Inl x \<Rightarrow> []
            | Inr req \<Rightarrow> [JudgeView ''compiling-start'', Fetch req, JudgeView ''compiling-stop'']"
  let ?pre = "if hasInput inp \<and> fs_fault e (OpWrite (tempPath e)) = None
              then [FsWrite (tempPath e) inp] else []"
  obtain tl where tl: "log (snd (compileAndRunViaApi e w src inp language)) =
           log (snd (snd (buildRequest e w u tag src inp))) @ ?mid @ tl"
    "writes tl = []" "requests tl = []" "warnings tl = []"
    using api_log [OF assms] by blast
  have "log (snd (compileAndRunViaApi e w src inp language)) = log w @ (?pre @ ?mid @ tl)"
    using tl(1) by (simp add: buildRequest_world)
  then have em: "emitted w (snd (compileAndRunViaApi e w src inp language)) = ?pre @ ?mid @ tl"
    by (rule emitted_append)
  show ?thesis
    unfolding em using tl(2-4)
    by (simp add: writes_append requests_append warnings_append split: sum.splits)
qed

lemma api_frame:
  "runningBinaries (snd (compileAndRunViaApi e w src inp language)) = runningBinaries w \<and>
   procs (snd (compileAndRunViaApi e w src inp language)) = procs w \<and>
   spawned (snd (compileAndRunViaApi e w src inp language)) = spawned w"
proof (cases "configured (apiUrlPref e)")
  case False
  then show ?thesis by (simp add: api_unconfigured)
next
  case True
  then obtain u where u: "apiUrlPref e = Some u" "configured (Some u)"
    by (cases "apiUrlPref e") (auto simp: configured_def)
  show ?thesis
  proof (cases "mapLanguageToApi (name language)")
    case None
    with True show ?thesis by (simp add: api_unmapped)
  next
    case (Some tag)
    show ?thesis
      by (simp add: api_configured [OF u Some] tryBlock_parts cleanup_frame catchBlock_def Let_def
          buildRequest_world split: sum.splits prod.splits)
  qed
qed

section \<open>Results for the claims on the remote client\<close>

text \<open>
  C3, amended. When the request is built, the endpoint answers with a 2xx status and the
  body is read, \<^verbatim>\<open>compileAndRunViaApi\<close> returns a result whose \<open>stdout\<close> is the body's
  output string (empty when the field is absent); for a true \<open>success\<close> the exit code
  is 0 and \<open>stderr\<close> is empty; for a false \<open>success\<close> the exit code is 1 and
  \<open>stderr\<close> is the body's error string when that is a non-empty string, and the
  fallback \<^verbatim>\<open>Unknown error\<close> when the field is absent or empty.
\<close>

theorem ok_response_result:
  assumes "apiUrlPref e = Some apiUrl" and "configured (Some apiUrl)"
    and "mapLanguageToApi (name language) = Some tag"
    and "fst (buildRequest e w apiUrl tag srcPath input) = Inr req"
    and "fetch e req = Responds resp" and "response_ok resp"
    and "json_result resp = Inr body"
  shows "\<exists>r. fst (compileAndRunViaApi e w srcPath input language) = Inr r \<and>
           stdout r = (case body_output body of None \<Rightarrow> [] | Some out \<Rightarrow> out) \<and>
           (body_success body \<longrightarrow> code r = Some 0 \<and> stderr r = []) \<and>
           (\<not> body_success body \<longrightarrow> code r = Some 1 \<and>
              stderr r = (case body_error body of
                            None \<Rightarrow> ''Unknown error''
                          | Some err \<Rightarrow> if err = [] then ''Unknown error'' else err))"
  using assms(4-7)
  by (auto simp: api_configured [OF assms(1-3)] tryBlock_parts handleResponse_def Let_def
      or_else_def split: option.splits)

text \<open>C3 on the example: the answer 200 with the output \<^verbatim>\<open>42\<close> and a newline.\<close>

theorem ok_response_result_witness:
  "apiUrlPref exampleEnv = Some ''http://localhost:3000/'' \<and>
   configured (Some ''http://localhost:3000/'') \<and>
   mapLanguageToApi (name pythonLang) = Some ''python'' \<and>
   fst (buildRequest exampleEnv exampleWorld ''http://localhost:3000/'' ''python'' ''/w/a.py'' ''1 2'')
     = Inr exampleRequest \<and>
   fetch exampleEnv exampleRequest = Responds okResponse \<and> response_ok okResponse \<and>
   json_result okResponse = Inr okBody \<and>
   (\<exists>r. fst (compileAndRunViaApi exampleEnv exampleWorld ''/w/a.py'' ''1 2'' pythonLang) = Inr r \<and>
        stdout r = ''42'' @ [CHR 0x0A] \<and> code r = Some 0 \<and> stderr r = [])"
proof -
  have h1: "apiUrlPref exampleEnv = Some ''http://localhost:3000/''"
    by (simp add: exampleEnv_def)
  have h2: "configured (Some ''http://localhost:3000/'')"
    by (simp add: configured_def trim_def isWhiteSpace_def)
  have h3: "mapLanguageToApi (name pythonLang) = Some ''python''"
    by (simp add: mapLanguageToApi_def pythonLang_def)
  have h4: "fst (buildRequest exampleEnv exampleWorld ''http://localhost:3000/'' ''python''
                  ''/w/a.py'' ''1 2'') = Inr exampleRequest"
    by (simp add: eval_defs)
  have h5: "fetch exampleEnv exampleRequest = Responds okResponse"
    by (simp add: exampleEnv_def)
  have h6: "response_ok okResponse"
    by (simp add: response_ok_def okResponse_def)
  have h7: "json_result okResponse = Inr okBody"
    by (simp add: okResponse_def)
  from ok_response_result [OF h1 h2 h3 h4 h5 h6 h7] h1 h2 h3 h4 h5 h6 h7
  show ?thesis by (simp add: okBody_def pythonLang_def)
qed

text \<open>
  The claim as stated fails for an error string that is present and empty: the body
  \<^verbatim>\<open>{"success": false, "output": "", "error": ""}\<close> gives the fallback, not the
  body's error string.
\<close>

theorem empty_error_counterexample:
  "body_error emptyErrorBody = Some [] \<and>
   fst (compileAndRunViaApi envEmptyError exampleWorld ''/w/a.py'' [] pythonLang) =
     Inr \<lparr>stdout = [], stderr = ''Unknown error'', code = Some 1, signal = None,
          time = 250, timeOut = False\<rparr>"
  by (simp add: eval_defs)

text \<open>
  C4. When the request is built and the endpoint answers with a status outside 200..299,
  \<^verbatim>\<open>compileAndRunViaApi\<close> returns (it does not throw) a result whose exit code is the
  status, whose \<open>stderr\<close> names the status and carries the text of the body
  (\<^verbatim>\<open>Unknown error\<close> when the body cannot be read), with no signal and no timeout.
\<close>

theorem non2xx_is_captured:
  assumes "apiUrlPref e = Some apiUrl" and "configured (Some apiUrl)"
    and "mapLanguageToApi (name language) = Some tag"
    and "fst (buildRequest e w apiUrl tag srcPath input) = Inr req"
    and "fetch e req = Responds resp" and "\<not> response_ok resp"
  shows "fst (compileAndRunViaApi e w srcPath input language) =
           Inr \<lparr>stdout = [],
                stderr = ''API request failed with status '' @ show_nat (status resp) @ '': '' @
                         (case text_result resp of None \<Rightarrow> ''Unknown error'' | Some b \<Rightarrow> b),
                code = Some (int (status resp)), signal = None,
                time = t_end e - t_begin e, timeOut = False\<rparr>"
  using assms(4-6)
  by (simp add: api_configured [OF assms(1-3)] tryBlock_parts handleResponse_def Let_def)

text \<open>C4 on the example: the answer 500 with the body \<^verbatim>\<open>internal error\<close>.\<close>

theorem non2xx_is_captured_witness:
  "apiUrlPref env500 = Some ''http://localhost:3000/'' \<and>
   configured (Some ''http://localhost:3000/'') \<and>
   mapLanguageToApi (name pythonLang) = Some ''python'' \<and>
   fst (buildRequest env500 exampleWorld ''http://localhost:3000/'' ''python'' ''/w/a.py'' ''1 2'')
     = Inr exampleRequest \<and>
   fetch env500 exampleRequest = Responds response500 \<and> \<not> response_ok response500 \<and>
   fst (compileAndRunViaApi env500 exampleWorld ''/w/a.py'' ''1 2'' pythonLang) =
     Inr \<lparr>stdout = [], stderr = ''API request failed with status 500: internal error'',
          code = Some 500, signal = None, time = 250, timeOut = False\<rparr>"
proof -
  have h1: "apiUrlPref env500 = Some ''http://localhost:3000/''"
    by (simp add: env500_def exampleEnv_def)
  have h2: "configured (Some ''http://localhost:3000/'')"
    by (simp add: configured_def trim_def isWhiteSpace_def)
  have h3: "mapLanguageToApi (name pythonLang) = Some ''python''"
    by (simp add: mapLanguageToApi_def pythonLang_def)
  have h4: "fst (buildRequest env500 exampleWorld ''http://localhost:3000/'' ''python''
                  ''/w/a.py'' ''1 2'') = Inr exampleRequest"
    by (simp add: eval_defs)
  have h5: "fetch env500 exampleRequest = Responds response500"
    by (simp add: env500_def)
  have h6: "\<not> response_ok response500"
    by (simp add: response_ok_def response500_def)
  from non2xx_is_captured [OF h1 h2 h3 h4 h5 h6] h1 h2 h3 h4 h5 h6
  show ?thesis
    by (simp add: response500_def env500_def exampleEnv_def show_nat.simps digit_char_def)
qed

text \<open>
  C7, amended. A call that has an input to materialize (endpoint configured, language
  mapped) returns a result on every path through the \<^verbatim>\<open>try\<close> and \<^verbatim>\<open>catch\<close>
  blocks, never a thrown value, and ends with the cleanup step on the temporary file. The
  cleanup removes the file unless the removal itself fails: then the failure is logged and
  dropped and the file stays as the call wrote it. A cleanup on a file that does not exist
  attempts no removal and changes nothing.
\<close>

theorem temp_input_cleanup:
  assumes "configured (apiUrlPref e)" and "mapLanguageToApi (name language) = Some tag"
    and "hasInput input"
  shows "(\<exists>r. fst (compileAndRunViaApi e w srcPath input language) = Inr r) \<and>
         files (snd (compileAndRunViaApi e w srcPath input language)) (tempPath e) =
           (if fs_fault e (OpUnlink (tempPath e)) = None then None
            else if fs_fault e (OpWrite (tempPath e)) = None then Some input
            else files w (tempPath e)) \<and>
         removals (emitted w (snd (compileAndRunViaApi e w srcPath input language))) =
           (if fs_fault e (OpUnlink (tempPath e)) = None \<and>
               (fs_fault e (OpWrite (tempPath e)) = None \<or> files w (tempPath e) \<noteq> None)
            then [tempPath e] else []) \<and>
         (files w0 (tempPath e) = None \<longrightarrow> cleanup e (Some (tempPath e)) w0 = w0)"
proof -
  obtain u where u: "apiUrlPref e = Some u" "configured (Some u)"
    using assms(1) by (cases "apiUrlPref e") (auto simp: configured_def)
  let ?wb = "snd (snd (buildRequest e w u tag srcPath input))"
  have ifp: "fst (snd (buildRequest e w u tag srcPath input)) = Some (tempPath e)"
    using assms(3) by (simp add: buildRequest_ifp)
  obtain r w2 mid where c: "compileAndRunViaApi e w srcPath input language =
             (Inr r, cleanup e (Some (tempPath e)) w2)"
    and f: "files w2 = files ?wb" and l: "log w2 = log ?wb @ mid" and m: "removals mid = []"
    using api_before_cleanup [OF u assms(2), of w srcPath input] unfolding ifp by blast
  have fb: "files ?wb (tempPath e) =
      (if fs_fault e (OpWrite (tempPath e)) = None then Some input else files w (tempPath e))"
    using assms(3) by (simp add: buildRequest_world)
  have lb: "log ?wb = log w @
      (if fs_fault e (OpWrite (tempPath e)) = None then [FsWrite (tempPath e) input] else [])"
    using assms(3) by (simp add: buildRequest_world)
  have 1: "\<exists>r. fst (compileAndRunViaApi e w srcPath input language) = Inr r"
    by (simp add: c)
  have 2: "files (snd (compileAndRunViaApi e w srcPath input language)) (tempPath e) =
           (if fs_fault e (OpUnlink (tempPath e)) = None then None
            else if fs_fault e (OpWrite (tempPath e)) = None then Some input
            else files w (tempPath e))"
    by (simp add: c cleanup_files f fb)
  have "log (snd (compileAndRunViaApi e w srcPath input language)) =
      log w @ ((if fs_fault e (OpWrite (tempPath e)) = None then [FsWrite (tempPath e) input] else [])
               @ mid @
               (if files w2 (tempPath e) \<noteq> None \<and> fs_fault e (OpUnlink (tempPath e)) = None
                then [FsUnlink (tempPath e)] else []))"
    by (simp add: c cleanup_log_exact l lb)
  then have "emitted w (snd (compileAndRunViaApi e w srcPath input language)) =
      (if fs_fault e (OpWrite (tempPath e)) = None then [FsWrite (tempPath e) input] else [])
               @ mid @
               (if files w2 (tempPath e) \<noteq> None \<and> fs_fault e (OpUnlink (tempPath e)) = None
                then [FsUnlink (tempPath e)] else [])"
    by (rule emitted_append)
  then have 3: "removals (emitted w (snd (compileAndRunViaApi e w srcPath input language))) =
           (if fs_fault e (OpUnlink (tempPath e)) = None \<and>
               (fs_fault e (OpWrite (tempPath e)) = None \<or> files w (tempPath e) \<noteq> None)
            then [tempPath e] else [])"
    using m by (auto simp: removals_append f fb)
  have 4: "files w0 (tempPath e) = None \<longrightarrow> cleanup e (Some (tempPath e)) w0 = w0"
    by (simp add: cleanup_absent)
  from 1 2 3 4 show ?thesis by blast
qed

text \<open>
  C7 on the example: the input \<^verbatim>\<open>1 2\<close> is written to the temporary file, the file is
  removed once, and it does not exist after the call.
\<close>

theorem temp_input_cleanup_witness:
  "configured (apiUrlPref exampleEnv) \<and> mapLanguageToApi (name pythonLang) = Some ''python'' \<and>
   hasInput ''1 2'' \<and> fs_fault exampleEnv (OpUnlink (tempPath exampleEnv)) = None \<and>
   fs_fault exampleEnv (OpWrite (tempPath exampleEnv)) = None \<and>
   tempPath exampleEnv = ''/tmp/cph_input_1700000000000_k3j9x0abc.txt'' \<and>
   writes (emitted exampleWorld
             (snd (compileAndRunViaApi exampleEnv exampleWorld ''/w/a.py'' ''1 2'' pythonLang)))
     = [(''/tmp/cph_input_1700000000000_k3j9x0abc.txt'', ''1 2'')] \<and>
   removals (emitted exampleWorld
               (snd (compileAndRunViaApi exampleEnv exampleWorld ''/w/a.py'' ''1 2'' pythonLang)))
     = [''/tmp/cph_input_1700000000000_k3j9x0abc.txt''] \<and>
   files (snd (compileAndRunViaApi exampleEnv exampleWorld ''/w/a.py'' ''1 2'' pythonLang))
         ''/tmp/cph_input_1700000000000_k3j9x0abc.txt'' = None"
proof -
  have h1: "configured (apiUrlPref exampleEnv)"
    by (simp add: exampleEnv_def configured_def trim_def isWhiteSpace_def)
  have h2: "mapLanguageToApi (name pythonLang) = Some ''python''"
    by (simp add: mapLanguageToApi_def pythonLang_def)
  have h3: "hasInput ''1 2''"
    by (simp add: hasInput_def trim_def isWhiteSpace_def)
  have h4: "fs_fault exampleEnv (OpUnlink (tempPath exampleEnv)) = None"
    "fs_fault exampleEnv (OpWrite (tempPath exampleEnv)) = None"
    by (simp_all add: exampleEnv_def)
  have h5: "tempPath exampleEnv = ''/tmp/cph_input_1700000000000_k3j9x0abc.txt''"
    by (simp add: tempPath_def exampleEnv_def posix_path_def show_nat.simps digit_char_def)
  have h6: "writes (emitted exampleWorld
             (snd (compileAndRunViaApi exampleEnv exampleWorld ''/w/a.py'' ''1 2'' pythonLang)))
     = [(''/tmp/cph_input_1700000000000_k3j9x0abc.txt'', ''1 2'')]"
    by (simp add: eval_defs emitted_def)
  from temp_input_cleanup [OF h1 h2 h3, of exampleWorld "''/w/a.py''"] h1 h2 h3 h4 h6
  show ?thesis unfolding h5 by simp
qed

text \<open>
  The claim as stated fails when the removal itself fails: every step of the call
  succeeds and the client returns the result of the run, the removal of the temporary
  file is refused, and the file is still there after the call.
\<close>

theorem unlink_failure_counterexample:
  "fst (compileAndRunViaApi envUnlinkFails exampleWorld ''/w/a.py'' ''1 2'' pythonLang) =
     Inr \<lparr>stdout = ''42'' @ [CHR 0x0A], stderr = [], code = Some 0, signal = None,
          time = 250, timeOut = False\<rparr> \<and>
   files (snd (compileAndRunViaApi envUnlinkFails exampleWorld ''/w/a.py'' ''1 2'' pythonLang))
         ''/tmp/cph_input_1700000000000_k3j9x0abc.txt'' = Some ''1 2''"
  by (simp add: eval_defs)

text \<open>
  C8, amended. The temporary input file is written and attached as the input part if
  and only if the input has a character that is not white space. For an empty or blank
  input no file is written and a request that is sent has no input part; for any other
  input a request that is sent carries the input as a named file part and the file was
  written; and it is sent when the endpoint is configured, the language is mapped, the
  source can be read and the file operations succeed.
\<close>

theorem input_part_iff_not_blank:
  "(\<not> hasInput input \<longrightarrow>
      writes (emitted w (snd (compileAndRunViaApi e w srcPath input language))) = [] \<and>
      (\<forall>req \<in> set (requests (emitted w (snd (compileAndRunViaApi e w srcPath input language)))).
         input_part req = None)) \<and>
   (hasInput input \<longrightarrow>
      (\<forall>req \<in> set (requests (emitted w (snd (compileAndRunViaApi e w srcPath input language)))).
         writes (emitted w (snd (compileAndRunViaApi e w srcPath input language)))
           = [(tempPath e, input)] \<and>
         input_part req = Some \<lparr>part_name = basename (pathm e) (tempPath e),
                                part_bytes = input\<rparr>)) \<and>
   (hasInput input \<and> configured (apiUrlPref e) \<and> mapLanguageToApi (name language) \<noteq> None \<and>
    fs_fault e (OpWrite (tempPath e)) = None \<and> fs_fault e (OpRead (tempPath e)) = None \<and>
    fs_fault e (OpRead srcPath) = None \<and> ((files w)(tempPath e \<mapsto> input)) srcPath \<noteq> None \<longrightarrow>
      writes (emitted w (snd (compileAndRunViaApi e w srcPath input language)))
        = [(tempPath e, input)] \<and>
      (\<exists>req. requests (emitted w (snd (compileAndRunViaApi e w srcPath input language))) = [req] \<and>
             input_part req = Some \<lparr>part_name = basename (pathm e) (tempPath e),
                                    part_bytes = input\<rparr>))"
proof (cases "configured (apiUrlPref e)")
  case False
  then show ?thesis by (simp add: api_unconfigured emitted_def)
next
  case True
  then obtain u where u: "apiUrlPref e = Some u" "configured (Some u)"
    by (cases "apiUrlPref e") (auto simp: configured_def)
  show ?thesis
  proof (cases "mapLanguageToApi (name language)")
    case None
    with True show ?thesis by (simp add: api_unmapped emitted_def)
  next
    case (Some tag)
    note em = api_emitted [OF u Some, of w srcPath input]
    have a: "\<not> hasInput input \<longrightarrow>
      writes (emitted w (snd (compileAndRunViaApi e w srcPath input language))) = [] \<and>
      (\<forall>req \<in> set (requests (emitted w (snd (compileAndRunViaApi e w srcPath input language)))).
         input_part req = None)"
      using em buildRequest_input_part [of e w u tag srcPath input]
      by (auto split: sum.splits)
    have b: "hasInput input \<longrightarrow>
      (\<forall>req \<in> set (requests (emitted w (snd (compileAndRunViaApi e w srcPath input language)))).
         writes (emitted w (snd (compileAndRunViaApi e w srcPath input language)))
           = [(tempPath e, input)] \<and>
         input_part req = Some \<lparr>part_name = basename (pathm e) (tempPath e),
                                part_bytes = input\<rparr>)"
      using em buildRequest_input_part [of e w u tag srcPath input]
        buildRequest_written [of e w u tag srcPath input]
      by (auto split: sum.splits)
    have c: "hasInput input \<and> configured (apiUrlPref e) \<and> mapLanguageToApi (name language) \<noteq> None \<and>
    fs_fault e (OpWrite (tempPath e)) = None \<and> fs_fault e (OpRead (tempPath e)) = None \<and>
    fs_fault e (OpRead srcPath) = None \<and> ((files w)(tempPath e \<mapsto> input)) srcPath \<noteq> None \<longrightarrow>
      writes (emitted w (snd (compileAndRunViaApi e w srcPath input language)))
        = [(tempPath e, input)] \<and>
      (\<exists>req. requests (emitted w (snd (compileAndRunViaApi e w srcPath input language))) = [req] \<and>
             input_part req = Some \<lparr>part_name = basename (pathm e) (tempPath e),
                                    part_bytes = input\<rparr>)"
    proof (intro impI, elim conjE)
      assume h: "hasInput input" "fs_fault e (OpWrite (tempPath e)) = None"
        "fs_fault e (OpRead (tempPath e)) = None" "fs_fault e (OpRead srcPath) = None"
        "((files w)(tempPath e \<mapsto> input)) srcPath \<noteq> None"
      then obtain content where "((files w)(tempPath e \<mapsto> input)) srcPath = Some content"
        by blast
      from buildRequest_built [OF h(1-4) this, of u tag] em h(1,2)
      show "writes (emitted w (snd (compileAndRunViaApi e w srcPath input language)))
              = [(tempPath e, input)] \<and>
      (\<exists>req. requests (emitted w (snd (compileAndRunViaApi e w srcPath input language))) = [req] \<and>
             input_part req = Some \<lparr>part_name = basename (pathm e) (tempPath e),
                                    part_bytes = input\<rparr>)"
        by simp
    qed
    from a b c show ?thesis by blast
  qed
qed

text \<open>C8 on the examples: the empty input and the input \<^verbatim>\<open>1 2\<close>.\<close>

theorem input_part_iff_not_blank_witness:
  "\<not> hasInput [] \<and>
   writes (emitted exampleWorld
             (snd (compileAndRunViaApi exampleEnv exampleWorld ''/w/a.py'' [] pythonLang))) = [] \<and>
   hasInput ''1 2'' \<and> configured (apiUrlPref exampleEnv) \<and>
   mapLanguageToApi (name pythonLang) \<noteq> None \<and>
   fs_fault exampleEnv (OpWrite (tempPath exampleEnv)) = None \<and>
   fs_fault exampleEnv (OpRead (tempPath exampleEnv)) = None \<and>
   fs_fault exampleEnv (OpRead ''/w/a.py'') = None \<and>
   ((files exampleWorld)(tempPath exampleEnv \<mapsto> ''1 2'')) ''/w/a.py'' \<noteq> None \<and>
   requests (emitted exampleWorld
               (snd (compileAndRunViaApi exampleEnv exampleWorld ''/w/a.py'' ''1 2'' pythonLang)))
     = [exampleRequest] \<and>
   writes (emitted exampleWorld
             (snd (compileAndRunViaApi exampleEnv exampleWorld ''/w/a.py'' ''1 2'' pythonLang)))
     = [(tempPath exampleEnv, ''1 2'')]"
proof -
  have h0: "\<not> hasInput []"
    by (simp add: hasInput_def)
  have h1: "hasInput ''1 2''"
    by (simp add: hasInput_def trim_def isWhiteSpace_def)
  have h2: "configured (apiUrlPref exampleEnv)"
    by (simp add: exampleEnv_def configured_def trim_def isWhiteSpace_def)
  have h3: "mapLanguageToApi (name pythonLang) \<noteq> None"
    by (simp add: mapLanguageToApi_def pythonLang_def)
  have h4: "fs_fault exampleEnv (OpWrite (tempPath exampleEnv)) = None"
    "fs_fault exampleEnv (OpRead (tempPath exampleEnv)) = None"
    "fs_fault exampleEnv (OpRead ''/w/a.py'') = None"
    by (simp_all add: exampleEnv_def)
  have h5: "((files exampleWorld)(tempPath exampleEnv \<mapsto> ''1 2'')) ''/w/a.py'' \<noteq> None"
    by (simp add: exampleWorld_def emptyWorld_def)
  have h6: "requests (emitted exampleWorld
               (snd (compileAndRunViaApi exampleEnv exampleWorld ''/w/a.py'' ''1 2'' pythonLang)))
     = [exampleRequest]"
    by (simp add: eval_defs emitted_def)
  from input_part_iff_not_blank [of "[]" exampleWorld exampleEnv "''/w/a.py''" pythonLang]
    input_part_iff_not_blank [of "''1 2''" exampleWorld exampleEnv "''/w/a.py''" pythonLang]
    h0 h1 h2 h3 h4 h5 h6
  show ?thesis by simp
qed

text \<open>
  The claim as stated fails for an input that is not empty but blank: for the input of
  one space no file is written and the request has no input part.
\<close>

theorem blank_input_counterexample:
  "'' '' \<noteq> [] \<and>
   writes (emitted exampleWorld
             (snd (compileAndRunViaApi exampleEnv exampleWorld ''/w/a.py'' '' '' pythonLang))) = [] \<and>
   requests (emitted exampleWorld
               (snd (compileAndRunViaApi exampleEnv exampleWorld ''/w/a.py'' '' '' pythonLang)))
     = [\<lparr>endpoint = ''http://localhost:3000/compile'', lang_part = ''python'',
         code_part = \<lparr>part_name = ''a.py'', part_bytes = ''print(42)''\<rparr>,
         input_part = None\<rparr>]"
  by (simp add: eval_defs emitted_def)

text \<open>
  C10. Every result that \<^verbatim>\<open>compileAndRunViaApi\<close> returns has no signal and no
  timeout.
\<close>

theorem remote_signal_absent:
  "fst (compileAndRunViaApi e w srcPath input language) = Inr r \<Longrightarrow>
     signal r = None \<and> \<not> timeOut r"
  using compileAndRunViaApi_shape [of e w srcPath input language r
      "snd (compileAndRunViaApi e w srcPath input language)"]
  by (cases "compileAndRunViaApi e w srcPath input language") auto

text \<open>C10 on the example: the result for the answer 500.\<close>

theorem remote_signal_absent_witness:
  "fst (compileAndRunViaApi env500 exampleWorld ''/w/a.py'' ''1 2'' pythonLang) = Inr result500 \<and>
   signal result500 = None \<and> \<not> timeOut result500"
proof -
  have h: "fst (compileAndRunViaApi env500 exampleWorld ''/w/a.py'' ''1 2'' pythonLang)
             = Inr result500"
    by (simp add: eval_defs)
  from remote_signal_absent [OF h] h show ?thesis by simp
qed

section \<open>The dispatcher and the local calls\<close>

lemmas exec_defs = runTestCase_def advisory_def dispatch_def shouldUseCloudApi_def applyAlias_def
  spawnLocal_def spawnSpec_def run_def resolveSrcPath_def stripBinSuffix_def possibleExtensions_def
  posix_extname_def sourceFailure_def fallbackMessage_def toUpperCase_def upperChar_def
  spawnFailureWorld_def gracefulExitWorld_def twoCallsWorld_def stillRunning_def
  killRequests_def endings_def

subsection \<open>The dispatcher\<close>

lemma existsSync_log: "existsSync (w\<lparr>log := l\<rparr>) p = existsSync w p"
  by (simp add: existsSync_def)

lemma probe_log: "probe (w\<lparr>log := l\<rparr>) b exts = probe w b exts"
  by (induction exts) (simp_all add: existsSync_log)

lemma resolveSrcPath_log:
  "resolveSrcPath e (w\<lparr>log := l\<rparr>) language binPath = resolveSrcPath e w language binPath"
  by (simp add: resolveSrcPath_def probe_log Let_def)

lemma dispatch_log: "dispatch e (w\<lparr>log := l\<rparr>) language binPath = dispatch e w language binPath"
  by (simp only: dispatch_def resolveSrcPath_log existsSync_log)

lemma dispatch_advisory:
  "dispatch e (advisory e language w) language binPath = dispatch e w language binPath"
  by (simp add: advisory_def dispatch_log)

lemma dispatch_local:
  "dispatch e w language binPath = RouteLocal \<longleftrightarrow> \<not> shouldUseCloudApi e language"
  by (simp add: dispatch_def Let_def split: option.splits)

lemma shouldUseCloudApi_iff:
  "shouldUseCloudApi e language \<longleftrightarrow>
     configured (apiUrlPref e) \<and> mapLanguageToApi (name language) \<noteq> None"
  by (simp add: shouldUseCloudApi_def)

lemma advisory_mapped:
  "mapLanguageToApi (name language) \<noteq> None \<Longrightarrow> advisory e language w = w"
  by (simp add: advisory_def)

lemma advisory_unconfigured:
  "\<not> configured (apiUrlPref e) \<Longrightarrow> advisory e language w = w"
  by (simp add: advisory_def)

lemma runTestCase_local:
  assumes "\<not> shouldUseCloudApi e language"
  shows "runTestCase e w language binPath input =
           (Pending (spawned w), applyAlias e language,
            snd (spawnLocal e (advisory e language w) (applyAlias e language) binPath input))"
proof -
  have "dispatch e (advisory e language w) language binPath = RouteLocal"
    using assms by (simp add: dispatch_advisory dispatch_local)
  then show ?thesis
    by (simp add: runTestCase_def Let_def spawnLocal_def advisory_def)
qed

lemma runTestCase_remote:
  assumes "shouldUseCloudApi e language"
  shows "runTestCase e w language binPath input =
           (case dispatch e w language binPath of
              RouteRemote srcPath \<Rightarrow>
                (case compileAndRunViaApi e w srcPath input language of
                   (Inl x, w2) \<Rightarrow> (Rejected x, language, w2)
                 | (Inr r, w2) \<Rightarrow> (Returned r, language, w2))
            | RouteSourceFailure \<Rightarrow> (Returned sourceFailure, language, w)
            | RouteLocal \<Rightarrow> (Returned sourceFailure, language, w))"
proof -
  have a: "advisory e language w = w"
    using assms by (simp add: shouldUseCloudApi_iff advisory_mapped)
  have "dispatch e w language binPath \<noteq> RouteLocal"
    using assms by (simp add: dispatch_local)
  then show ?thesis
    by (simp add: runTestCase_def Let_def a split: route.splits)
qed

lemma spawnLocal_log:
  "log (snd (spawnLocal e w language binPath input)) =
     log w @ [Spawn (spawned w) (spawnSpec e language binPath),
              StdinWrite (spawned w) input, StdinEnd (spawned w)]"
  by (simp add: spawnLocal_def Let_def)

lemmas run_defs = exec_defs eval_defs

subsection \<open>Local calls\<close>

lemma handle_Exit:
  "procs w p = Some c \<Longrightarrow>
     procs (handle w (Exit p cd sg now)) p =
       Some (c\<lparr>killer_armed := False, spawn_timer_armed := False,
               result := (result c)\<lparr>code := cd, signal := sg, time := now - began c\<rparr>,
               resolved := True\<rparr>)"
  by simp

lemma handle_ProcError:
  "procs w p = Some c \<Longrightarrow>
     procs (handle w (ProcError p nm now)) p =
       Some (c\<lparr>killer_armed := False,
               result := (result c)\<lparr>code := Some 1, signal := Some nm, time := now - began c\<rparr>,
               resolved := True\<rparr>)"
  by simp

lemma handle_TimerFire:
  "procs w p = Some c \<Longrightarrow> killer_armed c \<Longrightarrow>
     handle w (TimerFire p) =
       w\<lparr>procs := (procs w)(p \<mapsto> c\<lparr>killer_armed := False,
                                     result := (result c)\<lparr>timeOut := True\<rparr>\<rparr>),
         log := log w @ [KillRequest p]\<rparr>"
  by simp

lemma handle_SpawnTimeout:
  "procs w p = Some c \<Longrightarrow> spawn_timer_armed c \<Longrightarrow>
     handle w (SpawnTimeout p) =
       w\<lparr>procs := (procs w)(p \<mapsto> c\<lparr>spawn_timer_armed := False\<rparr>),
         log := log w @ [KillRequest p]\<rparr>"
  by simp

text \<open>A call whose timer has fired and whose promise is not resolved.\<close>

lemma handle_keeps_waiting:
  assumes "procs w p = Some c" "\<not> resolved c" "\<not> killer_armed c" "timeOut (result c)"
    and "\<not> settles p s"
  shows "\<exists>c'. procs (handle w s) p = Some c' \<and> \<not> resolved c' \<and> \<not> killer_armed c' \<and>
              timeOut (result c') \<and>
              spawn_timer_armed c' = (spawn_timer_armed c \<and> s \<noteq> SpawnTimeout p)"
  using assms by (cases s) (auto split: option.splits)

lemma handle_kill_count:
  assumes "procs w p = Some c" "\<not> killer_armed c" "s \<noteq> KillRunning"
  shows "killRequests p (log (handle w s)) =
           killRequests p (log w) + (if s = SpawnTimeout p \<and> spawn_timer_armed c then 1 else 0)"
  using assms by (cases s) (auto simp: killRequests_def split: option.splits)

lemma run_keeps_waiting:
  assumes "procs w p = Some c" "\<not> resolved c" "\<not> killer_armed c" "timeOut (result c)"
    and "\<forall>s \<in> set ss. \<not> settles p s"
  shows "\<exists>c'. procs (run w ss) p = Some c' \<and> \<not> resolved c' \<and> \<not> killer_armed c' \<and>
              timeOut (result c') \<and>
              (KillRunning \<notin> set ss \<longrightarrow>
                 killRequests p (log (run w ss)) =
                   killRequests p (log w) +
                   (if spawn_timer_armed c \<and> SpawnTimeout p \<in> set ss then 1 else 0))"
  using assms
proof (induction ss arbitrary: w c)
  case Nil
  then show ?case by (simp add: run_def)
next
  case (Cons s ss)
  from Cons.prems have ns: "\<not> settles p s" by simp
  obtain c1 where c1: "procs (handle w s) p = Some c1" "\<not> resolved c1" "\<not> killer_armed c1"
    "timeOut (result c1)"
    and t1: "spawn_timer_armed c1 = (spawn_timer_armed c \<and> s \<noteq> SpawnTimeout p)"
    using handle_keeps_waiting [OF Cons.prems(1-4) ns] by blast
  have rest: "\<forall>s \<in> set ss. \<not> settles p s" using Cons.prems(5) by simp
  obtain c' where c': "procs (run (handle w s) ss) p = Some c'" "\<not> resolved c'"
    "\<not> killer_armed c'" "timeOut (result c')"
    "KillRunning \<notin> set ss \<longrightarrow>
       killRequests p (log (run (handle w s) ss)) =
         killRequests p (log (handle w s)) +
         (if spawn_timer_armed c1 \<and> SpawnTimeout p \<in> set ss then 1 else 0)"
    using Cons.IH [OF c1 rest] by blast
  have k: "s \<noteq> KillRunning \<Longrightarrow>
      killRequests p (log (handle w s)) =
        killRequests p (log w) + (if s = SpawnTimeout p \<and> spawn_timer_armed c then 1 else 0)"
    using handle_kill_count [OF Cons.prems(1,3)] by simp
  have r: "run w (s # ss) = run (handle w s) ss" by (simp add: run_def)
  show ?case unfolding r using c' k t1 by (auto simp del: handle.simps)
qed

lemma runTestCase_Returned:
  assumes "fst (runTestCase e w language binPath input) = Returned r"
  shows "code r \<noteq> None \<and> signal r = None \<and> \<not> timeOut r"
proof (cases "shouldUseCloudApi e language")
  case False
  then show ?thesis using assms by (simp add: runTestCase_local)
next
  case True
  show ?thesis
  proof (cases "dispatch e w language binPath")
    case (RouteRemote srcPath)
    obtain res w' where c: "compileAndRunViaApi e w srcPath input language = (res, w')"
      by (cases "compileAndRunViaApi e w srcPath input language") auto
    with assms RouteRemote True have "res = Inr r"
      by (cases res) (simp_all add: runTestCase_remote)
    with c show ?thesis using compileAndRunViaApi_shape by blast
  next
    case RouteSourceFailure
    with assms True have "r = sourceFailure" by (simp add: runTestCase_remote)
    then show ?thesis by (simp add: sourceFailure_def)
  next
    case RouteLocal
    with True show ?thesis by (simp add: dispatch_local)
  qed
qed

section \<open>Results for the claims on the dispatcher and the local calls\<close>

text \<open>
  C1, amended. With an endpoint configured and a language that maps to a remote tag, a
  call of \<^verbatim>\<open>runTestCase\<close> takes the remote branch: it spawns no process and shows
  no warning; it is routed to \<^verbatim>\<open>compileAndRunViaApi\<close>, whose result it returns, when
  the derived source path exists or a saved file is open in the active editor, and it
  returns the source-resolution failure without calling the client otherwise. With an
  endpoint configured and a language that does not map, exactly one warning is shown and
  the call runs locally. With no endpoint configured the call runs locally and no warning
  is shown.
\<close>

theorem dispatcher_routing:
  "(configured (apiUrlPref e) \<and> mapLanguageToApi (name language) \<noteq> None \<longrightarrow>
      warnings (emitted w (snd (snd (runTestCase e w language binPath input)))) = [] \<and>
      spawned (snd (snd (runTestCase e w language binPath input))) = spawned w \<and>
      (dispatch e w language binPath = RouteSourceFailure \<longleftrightarrow>
         \<not> existsSync w (resolveSrcPath e w language binPath) \<and>
         (\<forall>ed. activeTextEditor e = Some ed \<longrightarrow> isUntitled ed)) \<and>
      (case dispatch e w language binPath of
         RouteRemote srcPath \<Rightarrow>
           \<exists>r. fst (compileAndRunViaApi e w srcPath input language) = Inr r \<and>
               runTestCase e w language binPath input =
                 (Returned r, language, snd (compileAndRunViaApi e w srcPath input language))
       | RouteSourceFailure \<Rightarrow>
           runTestCase e w language binPath input = (Returned sourceFailure, language, w)
       | RouteLocal \<Rightarrow> False)) \<and>
   (configured (apiUrlPref e) \<and> mapLanguageToApi (name language) = None \<longrightarrow>
      dispatch e w language binPath = RouteLocal \<and>
      fst (runTestCase e w language binPath input) = Pending (spawned w) \<and>
      warnings (emitted w (snd (snd (runTestCase e w language binPath input))))
        = [fallbackMessage language]) \<and>
   (\<not> configured (apiUrlPref e) \<longrightarrow>
      dispatch e w language binPath = RouteLocal \<and>
      fst (runTestCase e w language binPath input) = Pending (spawned w) \<and>
      warnings (emitted w (snd (snd (runTestCase e w language binPath input)))) = [])"
proof (intro conjI impI)
  assume c: "configured (apiUrlPref e) \<and> mapLanguageToApi (name language) \<noteq> None"
  then obtain tag where tag: "mapLanguageToApi (name language) = Some tag" by auto
  obtain u where u: "apiUrlPref e = Some u" "configured (Some u)"
    using c by (cases "apiUrlPref e") (auto simp: configured_def)
  have s: "shouldUseCloudApi e language"
    using c by (simp add: shouldUseCloudApi_iff)
  show "dispatch e w language binPath = RouteSourceFailure \<longleftrightarrow>
         \<not> existsSync w (resolveSrcPath e w language binPath) \<and>
         (\<forall>ed. activeTextEditor e = Some ed \<longrightarrow> isUntitled ed)"
    using s by (auto simp: dispatch_def Let_def split: option.splits)
  show "case dispatch e w language binPath of
         RouteRemote srcPath \<Rightarrow>
           \<exists>r. fst (compileAndRunViaApi e w srcPath input language) = Inr r \<and>
               runTestCase e w language binPath input =
                 (Returned r, language, snd (compileAndRunViaApi e w srcPath input language))
       | RouteSourceFailure \<Rightarrow>
           runTestCase e w language binPath input = (Returned sourceFailure, language, w)
       | RouteLocal \<Rightarrow> False"
  proof (cases "dispatch e w language binPath")
    case (RouteRemote srcPath)
    obtain r w' where "compileAndRunViaApi e w srcPath input language = (Inr r, w')"
      using api_returns [OF conjunct1 [OF c] tag] by blast
    then show ?thesis using RouteRemote by (simp add: runTestCase_remote [OF s])
  next
    case RouteSourceFailure
    then show ?thesis by (simp add: runTestCase_remote [OF s])
  next
    case RouteLocal
    then show ?thesis using s by (simp add: dispatch_local)
  qed
  show "warnings (emitted w (snd (snd (runTestCase e w language binPath input)))) = []"
  proof (cases "dispatch e w language binPath")
    case (RouteRemote srcPath)
    obtain r w' where "compileAndRunViaApi e w srcPath input language = (Inr r, w')"
      using api_returns [OF conjunct1 [OF c] tag] by blast
    then show ?thesis using RouteRemote api_emitted [OF u tag, of w srcPath input]
      by (simp add: runTestCase_remote [OF s])
  next
    case RouteSourceFailure
    then show ?thesis by (simp add: runTestCase_remote [OF s] emitted_def)
  next
    case RouteLocal
    then show ?thesis using s by (simp add: dispatch_local)
  qed
  show "spawned (snd (snd (runTestCase e w language binPath input))) = spawned w"
  proof (cases "dispatch e w language binPath")
    case (RouteRemote srcPath)
    obtain r w' where "compileAndRunViaApi e w srcPath input language = (Inr r, w')"
      using api_returns [OF conjunct1 [OF c] tag] by blast
    then show ?thesis using RouteRemote api_frame [of e w srcPath input language]
      by (simp add: runTestCase_remote [OF s])
  next
    case RouteSourceFailure
    then show ?thesis by (simp add: runTestCase_remote [OF s])
  next
    case RouteLocal
    then show ?thesis using s by (simp add: dispatch_local)
  qed
next
  assume c: "configured (apiUrlPref e) \<and> mapLanguageToApi (name language) = None"
  then have s: "\<not> shouldUseCloudApi e language"
    by (simp add: shouldUseCloudApi_iff)
  show "dispatch e w language binPath = RouteLocal"
    using s by (simp add: dispatch_local)
  show "fst (runTestCase e w language binPath input) = Pending (spawned w)"
    by (simp add: runTestCase_local [OF s])
  have "log (snd (snd (runTestCase e w language binPath input))) =
          log w @ [ShowWarning (fallbackMessage language),
                   Spawn (spawned w) (spawnSpec e (applyAlias e language) binPath),
                   StdinWrite (spawned w) input, StdinEnd (spawned w)]"
    using c by (simp add: runTestCase_local [OF s] spawnLocal_log advisory_def)
  then show "warnings (emitted w (snd (snd (runTestCase e w language binPath input))))
        = [fallbackMessage language]"
    by (simp add: emitted_def)
next
  assume c: "\<not> configured (apiUrlPref e)"
  then have s: "\<not> shouldUseCloudApi e language"
    by (simp add: shouldUseCloudApi_iff)
  show "dispatch e w language binPath = RouteLocal"
    using s by (simp add: dispatch_local)
  show "fst (runTestCase e w language binPath input) = Pending (spawned w)"
    by (simp add: runTestCase_local [OF s])
  have "log (snd (snd (runTestCase e w language binPath input))) =
          log w @ [Spawn (spawned w) (spawnSpec e (applyAlias e language) binPath),
                   StdinWrite (spawned w) input, StdinEnd (spawned w)]"
    using c by (simp add: runTestCase_local [OF s] spawnLocal_log advisory_def)
  then show "warnings (emitted w (snd (snd (runTestCase e w language binPath input)))) = []"
    by (simp add: emitted_def)
qed

text \<open>
  The three cases of C1 on the example environments: Python goes to the client, Ruby
  falls back to a local process with one warning, and without an endpoint Python runs
  locally with no warning.
\<close>

theorem dispatcher_routing_witness:
  "configured (apiUrlPref exampleEnv) \<and> mapLanguageToApi (name pythonLang) \<noteq> None \<and>
   dispatch exampleEnv exampleWorld pythonLang ''/w/a.py'' = RouteRemote ''/w/a.py'' \<and>
   fst (runTestCase exampleEnv exampleWorld pythonLang ''/w/a.py'' ''1 2'') =
     Returned \<lparr>stdout = ''42'' @ [CHR 0x0A], stderr = [], code = Some 0, signal = None,
               time = 250, timeOut = False\<rparr> \<and>
   mapLanguageToApi (name rubyLang) = None \<and>
   fst (runTestCase exampleEnv exampleWorld rubyLang ''/w/a.rb'' ''1 2'') = Pending 0 \<and>
   warnings (emitted exampleWorld (snd (snd (runTestCase exampleEnv exampleWorld rubyLang ''/w/a.rb'' ''1 2''))))
     = [fallbackMessage rubyLang] \<and>
   \<not> configured (apiUrlPref localEnv) \<and>
   fst (runTestCase localEnv exampleWorld pythonLang ''/w/a.py'' ''1 2'') = Pending 0 \<and>
   warnings (emitted exampleWorld (snd (snd (runTestCase localEnv exampleWorld pythonLang ''/w/a.py'' ''1 2'')))) = []"
proof -
  have h1: "configured (apiUrlPref exampleEnv)"
    by (simp add: exampleEnv_def configured_def trim_def isWhiteSpace_def)
  have h2: "mapLanguageToApi (name pythonLang) \<noteq> None"
    by (simp add: mapLanguageToApi_def pythonLang_def)
  have h3: "dispatch exampleEnv exampleWorld pythonLang ''/w/a.py'' = RouteRemote ''/w/a.py''"
    by (simp add: run_defs)
  have h4: "fst (compileAndRunViaApi exampleEnv exampleWorld ''/w/a.py'' ''1 2'' pythonLang) =
     Inr \<lparr>stdout = ''42'' @ [CHR 0x0A], stderr = [], code = Some 0, signal = None,
               time = 250, timeOut = False\<rparr>"
    by (simp add: eval_defs)
  have h5: "mapLanguageToApi (name rubyLang) = None"
    by (simp add: mapLanguageToApi_def rubyLang_def)
  have h6: "\<not> configured (apiUrlPref localEnv)"
    by (simp add: localEnv_def configured_def)
  have h7: "spawned exampleWorld = 0"
    by (simp add: exampleWorld_def emptyWorld_def)
  from dispatcher_routing [of exampleEnv pythonLang exampleWorld "''/w/a.py''" "''1 2''"]
    dispatcher_routing [of exampleEnv rubyLang exampleWorld "''/w/a.rb''" "''1 2''"]
    dispatcher_routing [of localEnv pythonLang exampleWorld "''/w/a.py''" "''1 2''"]
    h1 h2 h3 h4 h5 h6 h7
  show ?thesis by simp
qed

text \<open>
  The claim as stated fails when no source can be determined: the endpoint is configured
  and C++ maps to a remote tag, but neither \<^verbatim>\<open>/out/sol.cpp\<close> (nor \<^verbatim>\<open>.cc\<close>,
  \<^verbatim>\<open>.cxx\<close>) exists nor is an editor active; the call returns the failure of lines 94
  to 102 and nothing is logged, so the client is never called.
\<close>

theorem source_failure_counterexample:
  "configured (apiUrlPref exampleEnv) \<and> mapLanguageToApi (name cppLang) = Some ''cpp'' \<and>
   dispatch exampleEnv emptyWorld cppLang ''/out/sol.bin'' = RouteSourceFailure \<and>
   runTestCase exampleEnv emptyWorld cppLang ''/out/sol.bin'' ''1 2'' =
     (Returned sourceFailure, cppLang, emptyWorld) \<and>
   log emptyWorld = []"
  by (simp add: run_defs)

text \<open>
  C2, amended. When the timer of an unresolved local call fires, \<open>timeOut\<close> is set
  and the timer's callback calls \<^verbatim>\<open>kill()\<close> once on the process (a request with the
  default signal); nothing confirms that the process stops and nothing escalates. As long
  as neither \<^verbatim>\<open>exit\<close> nor \<^verbatim>\<open>error\<close> is reported for the process the call stays
  unresolved; apart from \<^verbatim>\<open>killRunning\<close>, the only further \<^verbatim>\<open>kill\<close> on the process is
  the one Node makes when the \<^verbatim>\<open>timeout\<close> of \<^verbatim>\<open>spawnOpts\<close> elapses. The call
  resolves when the process reports \<^verbatim>\<open>exit\<close>, with \<open>timeOut\<close> true and the code and
  the signal that the event carries.
\<close>

theorem timeout_requests_termination:
  assumes "procs w p = Some c" and "killer_armed c" and "\<not> resolved c"
    and "\<forall>s \<in> set ss. \<not> settles p s"
  shows "log (handle w (TimerFire p)) = log w @ [KillRequest p] \<and>
         (\<exists>c1. procs (run (handle w (TimerFire p)) ss) p = Some c1 \<and>
               \<not> resolved c1 \<and> timeOut (result c1) \<and>
               (KillRunning \<notin> set ss \<longrightarrow>
                  killRequests p (log (run (handle w (TimerFire p)) ss))
                    = Suc (killRequests p (log w)) +
                      (if spawn_timer_armed c \<and> SpawnTimeout p \<in> set ss then 1 else 0))) \<and>
         (\<exists>c2. procs (handle (run (handle w (TimerFire p)) ss) (Exit p cd sg now)) p = Some c2 \<and>
               resolved c2 \<and> timeOut (result c2) \<and>
               code (result c2) = cd \<and> signal (result c2) = sg)"
proof -
  let ?w1 = "handle w (TimerFire p)"
  let ?c0 = "c\<lparr>killer_armed := False, result := (result c)\<lparr>timeOut := True\<rparr>\<rparr>"
  have w1: "?w1 = w\<lparr>procs := (procs w)(p \<mapsto> ?c0), log := log w @ [KillRequest p]\<rparr>"
    using assms(1,2) by (rule handle_TimerFire)
  have p1: "procs ?w1 p = Some ?c0" unfolding w1 by simp
  have l1: "log ?w1 = log w @ [KillRequest p]" unfolding w1 by simp
  obtain c1 where c1: "procs (run ?w1 ss) p = Some c1" "\<not> resolved c1" "\<not> killer_armed c1"
    "timeOut (result c1)"
    "KillRunning \<notin> set ss \<longrightarrow>
       killRequests p (log (run ?w1 ss)) =
         killRequests p (log ?w1) +
         (if spawn_timer_armed ?c0 \<and> SpawnTimeout p \<in> set ss then 1 else 0)"
    using run_keeps_waiting [OF p1 _ _ _ assms(4)] assms(3) by auto
  have k: "killRequests p (log ?w1) = Suc (killRequests p (log w))"
    by (simp add: l1 killRequests_def del: handle.simps)
  have e: "procs (handle (run ?w1 ss) (Exit p cd sg now)) p =
       Some (c1\<lparr>killer_armed := False, spawn_timer_armed := False,
               result := (result c1)\<lparr>code := cd, signal := sg, time := now - began c1\<rparr>,
               resolved := True\<rparr>)"
    using c1(1) by (rule handle_Exit)
  show ?thesis
    using l1 c1 k e by (simp del: handle.simps)
qed

text \<open>
  C2 on a local call of the example: the timer fires, data arrives, Node's timer for the
  \<^verbatim>\<open>timeout\<close> of \<^verbatim>\<open>spawnOpts\<close> elapses, and the process reports that the signal
  ended it; \<^verbatim>\<open>kill\<close> was called twice.
\<close>

theorem timeout_requests_termination_witness:
  "procs timedOutCall 0
     = Some \<lparr>result = \<lparr>stdout = [], stderr = [], code = None, signal = None, time = 0,
                        timeOut = False\<rparr>,
             killer_armed = True, spawn_timer_armed = True, began = 1000, resolved = False,
             launcher = ''python3''\<rparr> \<and>
   \<not> settles 0 (StdoutData 0 ''4'') \<and> \<not> settles 0 (TimerFire 0) \<and>
   \<not> settles 0 (SpawnTimeout 0) \<and> \<not> settles 0 (StderrData 0 ''x'') \<and>
   log (handle timedOutCall (TimerFire 0)) = log timedOutCall @ [KillRequest 0] \<and>
   killRequests 0 (log timedOutCall) = 0 \<and>
   killRequests 0 (log (run (handle timedOutCall (TimerFire 0)) waitingStimuli)) = 2 \<and>
   (\<exists>c2. procs (handle (run (handle timedOutCall (TimerFire 0)) waitingStimuli)
                        (Exit 0 None (Some ''SIGTERM'') 4000)) 0 = Some c2 \<and>
         resolved c2 \<and> timeOut (result c2) \<and> code (result c2) = None \<and>
         signal (result c2) = Some ''SIGTERM'')"
proof -
  let ?c = "\<lparr>result = \<lparr>stdout = [], stderr = [], code = None, signal = None, time = 0,
                        timeOut = False\<rparr>,
             killer_armed = True, spawn_timer_armed = True, began = 1000, resolved = False,
             launcher = ''python3''\<rparr>"
  have h1: "procs timedOutCall 0 = Some ?c"
    by (simp add: run_defs timedOutCall_def)
  have h2: "killer_armed ?c" by simp
  have h3: "\<not> resolved ?c" by simp
  have h4: "\<forall>s \<in> set waitingStimuli. \<not> settles 0 s"
    by (simp add: waitingStimuli_def)
  have h5: "KillRunning \<notin> set waitingStimuli" "SpawnTimeout 0 \<in> set waitingStimuli"
    by (simp_all add: waitingStimuli_def)
  have h6: "killRequests 0 (log timedOutCall) = 0"
    by (simp add: run_defs timedOutCall_def)
  from timeout_requests_termination [OF h1 h2 h3 h4,
      where cd = None and sg = "Some ''SIGTERM''" and now = 4000] h1 h5 h6
  show ?thesis by (auto simp: numeral_2_eq_2 simp del: handle.simps)
qed

text \<open>
  The claim as stated fails for a process that handles the termination request and exits
  by itself: the call resolves with \<open>timeOut\<close> true and the exit code 0, which is
  neither absent nor the mark of a killed process; \<^verbatim>\<open>kill()\<close> was called once.
\<close>

theorem graceful_exit_counterexample:
  "(case procs gracefulExitWorld 0 of
      None \<Rightarrow> False
    | Some c \<Rightarrow> resolved c \<and> timeOut (result c) \<and> code (result c) = Some 0 \<and>
               signal (result c) = None) \<and>
   killRequests 0 (log gracefulExitWorld) = 1"
  by (simp add: run_defs)

text \<open>
  C5, amended. Every result of the remote client, and every result that
  \<^verbatim>\<open>runTestCase\<close> returns at once, has an exit code, no signal and no timeout: exactly
  one of the three holds. A local call resolved by \<^verbatim>\<open>exit\<close> carries the code and the
  signal of the event and keeps its \<open>timeOut\<close> flag (true when the timer had fired);
  a local call resolved by \<^verbatim>\<open>error\<close> carries both the exit code 1 and a signal
  string.
\<close>

theorem result_characterization:
  "(fst (compileAndRunViaApi e w srcPath input language) = Inr r \<longrightarrow>
      code r \<noteq> None \<and> signal r = None \<and> \<not> timeOut r \<and> endings r = 1) \<and>
   (fst (runTestCase e w language binPath input) = Returned r \<longrightarrow>
      code r \<noteq> None \<and> signal r = None \<and> \<not> timeOut r \<and> endings r = 1) \<and>
   (procs w p = Some c \<longrightarrow>
      (\<exists>c'. procs (handle w (Exit p cd sg now)) p = Some c' \<and> resolved c' \<and>
            code (result c') = cd \<and> signal (result c') = sg \<and>
            timeOut (result c') = timeOut (result c)) \<and>
      (\<exists>c'. procs (handle w (ProcError p nm now)) p = Some c' \<and> resolved c' \<and>
            code (result c') = Some 1 \<and> signal (result c') = Some nm \<and>
            timeOut (result c') = timeOut (result c) \<and> 2 \<le> endings (result c')))"
proof (intro conjI impI)
  assume a: "fst (compileAndRunViaApi e w srcPath input language) = Inr r"
  then have "code r \<noteq> None \<and> signal r = None \<and> \<not> timeOut r"
    using compileAndRunViaApi_shape [of e w srcPath input language r
        "snd (compileAndRunViaApi e w srcPath input language)"]
    by (cases "compileAndRunViaApi e w srcPath input language") auto
  then show "code r \<noteq> None" "signal r = None" "\<not> timeOut r" "endings r = 1"
    by (auto simp: endings_def)
next
  assume a: "fst (runTestCase e w language binPath input) = Returned r"
  from runTestCase_Returned [OF a]
  show "code r \<noteq> None" "signal r = None" "\<not> timeOut r" "endings r = 1"
    by (auto simp: endings_def)
next
  assume a: "procs w p = Some c"
  show "\<exists>c'. procs (handle w (Exit p cd sg now)) p = Some c' \<and> resolved c' \<and>
            code (result c') = cd \<and> signal (result c') = sg \<and>
            timeOut (result c') = timeOut (result c)"
    using a by simp
  show "\<exists>c'. procs (handle w (ProcError p nm now)) p = Some c' \<and> resolved c' \<and>
            code (result c') = Some 1 \<and> signal (result c') = Some nm \<and>
            timeOut (result c') = timeOut (result c) \<and> 2 \<le> endings (result c')"
    using a by (simp add: endings_def)
qed

text \<open>
  C5 on the examples: the answer 500, the source-resolution failure, and a local process
  ended by a signal.
\<close>

theorem result_characterization_witness:
  "fst (compileAndRunViaApi env500 exampleWorld ''/w/a.py'' ''1 2'' pythonLang) = Inr result500 \<and>
   endings result500 = 1 \<and>
   fst (runTestCase exampleEnv emptyWorld cppLang ''/out/sol.bin'' ''1 2'') = Returned sourceFailure \<and>
   endings sourceFailure = 1 \<and>
   procs twoCallsWorld 1
     = Some \<lparr>result = \<lparr>stdout = [], stderr = [], code = None, signal = None, time = 0,
                        timeOut = False\<rparr>,
             killer_armed = True, spawn_timer_armed = True, began = 1000, resolved = False,
             launcher = ''python3''\<rparr> \<and>
   (\<exists>c'. procs (handle twoCallsWorld (Exit 1 None (Some ''SIGSEGV'') 1200)) 1 = Some c' \<and>
         resolved c' \<and> code (result c') = None \<and> signal (result c') = Some ''SIGSEGV'' \<and>
         \<not> timeOut (result c'))"
proof -
  have h1: "fst (compileAndRunViaApi env500 exampleWorld ''/w/a.py'' ''1 2'' pythonLang)
              = Inr result500"
    by (simp add: eval_defs)
  have h2: "fst (runTestCase exampleEnv emptyWorld cppLang ''/out/sol.bin'' ''1 2'')
              = Returned sourceFailure"
    by (simp add: run_defs)
  have h3: "procs twoCallsWorld 1
     = Some \<lparr>result = \<lparr>stdout = [], stderr = [], code = None, signal = None, time = 0,
                        timeOut = False\<rparr>,
             killer_armed = True, spawn_timer_armed = True, began = 1000, resolved = False,
             launcher = ''python3''\<rparr>"
    by (simp add: run_defs)
  from result_characterization [where e = env500 and w = exampleWorld and srcPath = "''/w/a.py''"
      and input = "''1 2''" and language = pythonLang and r = result500]
    result_characterization [where e = exampleEnv and w = emptyWorld
      and binPath = "''/out/sol.bin''" and input = "''1 2''" and language = cppLang
      and r = sourceFailure]
    result_characterization [where w = twoCallsWorld and p = 1 and cd = None
      and sg = "Some ''SIGSEGV''" and now = 1200]
    h1 h2 h3
  show ?thesis by simp
qed

text \<open>
  The claim as stated fails for a launcher that cannot be started: the result has both
  the exit code 1 and the signal \<^verbatim>\<open>Error\<close>.
\<close>

theorem spawn_error_counterexample:
  "(case procs spawnFailureWorld 0 of
      None \<Rightarrow> False
    | Some c \<Rightarrow> resolved c \<and> code (result c) = Some 1 \<and> signal (result c) = Some ''Error'' \<and>
               \<not> timeOut (result c) \<and> endings (result c) = 2)"
  by (simp add: run_defs)

text \<open>
  C6. The registry does not follow the claim: with two local calls running, the exit of
  the first one pops the last entry, which is the second process; the registry then holds
  the process that has exited and not the one that is still running.
\<close>

theorem registry_pop_removes_last:
  "runningBinaries twoCallsWorld = [0, 1] \<and>
   runningBinaries (handle twoCallsWorld (Exit 0 (Some 0) None 1100)) = [0] \<and>
   stillRunning [0, 1] [Exit 0 (Some 0) None 1100] = [1]"
  by (simp add: run_defs)

text \<open>
  C9, amended. After a call of \<^verbatim>\<open>runTestCase\<close> the descriptor is as before, except
  that a call which runs locally on \<^verbatim>\<open>win32\<close> with the compiler \<^verbatim>\<open>python3\<close>
  leaves the compiler field overwritten with \<^verbatim>\<open>python\<close>; the process of a local call
  is spawned from the descriptor so changed.
\<close>

theorem descriptor_after_call:
  "fst (snd (runTestCase e w language binPath input)) =
     (if \<not> shouldUseCloudApi e language \<and> platform e = ''win32'' \<and> compiler language = ''python3''
      then language\<lparr>compiler := ''python''\<rparr> else language) \<and>
   (\<not> shouldUseCloudApi e language \<longrightarrow>
      Spawn (spawned w) (spawnSpec e (applyAlias e language) binPath)
        \<in> set (emitted w (snd (snd (runTestCase e w language binPath input)))))"
proof (cases "shouldUseCloudApi e language")
  case True
  then show ?thesis
    by (simp add: runTestCase_remote split: route.splits prod.splits sum.splits)
next
  case False
  have "\<exists>pre. log (advisory e language w) = log w @ pre"
    by (simp add: advisory_def)
  then obtain pre where "log (advisory e language w) = log w @ pre" by blast
  then have "emitted w (snd (snd (runTestCase e w language binPath input))) =
      pre @ [Spawn (spawned w) (spawnSpec e (applyAlias e language) binPath),
              StdinWrite (spawned w) input, StdinEnd (spawned w)]"
    using False
    by (simp add: runTestCase_local spawnLocal_def Let_def emitted_def advisory_def split: if_splits)
  then show ?thesis using False
    by (simp add: runTestCase_local applyAlias_def)
qed

text \<open>
  C9 on the examples: on Windows the descriptor of Python is changed and the process is
  started with \<^verbatim>\<open>python\<close>; on Linux the descriptor stays.
\<close>

theorem descriptor_after_call_witness:
  "\<not> shouldUseCloudApi winEnv pythonLang \<and> platform winEnv = ''win32'' \<and>
   compiler pythonLang = ''python3'' \<and>
   fst (snd (runTestCase winEnv exampleWorld pythonLang ''/w/a.py'' ''1 2''))
     = pythonLang\<lparr>compiler := ''python''\<rparr> \<and>
   Spawn 0 \<lparr>command = ''python'', spawn_args = [''/w/a.py''], with_opts = True\<rparr>
     \<in> set (emitted exampleWorld (snd (snd (runTestCase winEnv exampleWorld pythonLang ''/w/a.py'' ''1 2'')))) \<and>
   fst (snd (runTestCase localEnv exampleWorld pythonLang ''/w/a.py'' ''1 2'')) = pythonLang"
proof -
  have h1: "\<not> shouldUseCloudApi winEnv pythonLang"
    by (simp add: shouldUseCloudApi_def winEnv_def localEnv_def configured_def)
  have h2: "platform winEnv = ''win32''"
    by (simp add: winEnv_def)
  have h3: "compiler pythonLang = ''python3''"
    by (simp add: pythonLang_def)
  have h4: "platform localEnv \<noteq> ''win32''"
    by (simp add: localEnv_def exampleEnv_def)
  have h5: "spawned exampleWorld = 0"
    by (simp add: exampleWorld_def emptyWorld_def)
  have h6: "spawnSpec winEnv (applyAlias winEnv pythonLang) ''/w/a.py'' =
      \<lparr>command = ''python'', spawn_args = [''/w/a.py''], with_opts = True\<rparr>"
    by (simp add: spawnSpec_def applyAlias_def winEnv_def pythonLang_def)
  from descriptor_after_call [of winEnv exampleWorld pythonLang "''/w/a.py''" "''1 2''"]
    descriptor_after_call [of localEnv exampleWorld pythonLang "''/w/a.py''" "''1 2''"]
    h1 h2 h3 h4 h5 h6
  show ?thesis by simp
qed

text \<open>
  The claim as stated fails on Windows: the compiler field reads \<^verbatim>\<open>python3\<close> before
  the call and \<^verbatim>\<open>python\<close> after it.
\<close>

theorem alias_mutates_descriptor_counterexample:
  "compiler pythonLang = ''python3'' \<and>
   compiler (fst (snd (runTestCase winEnv exampleWorld pythonLang ''/w/a.py'' ''1 2''))) = ''python''"
  by (simp add: run_defs)

end
